theory Spec2Isabelle
  imports Complex_Main "HOL-Library.Sublist" "HOL-Library.AList"
begin

text \<open>
  The project handler of the Linear MCP server: \<^verbatim>\<open>handleCreateProjectWithIssues\<close>,
  \<^verbatim>\<open>handleGetProject\<close> and \<^verbatim>\<open>handleSearchProjects\<close> of the class \<^verbatim>\<open>ProjectHandler\<close>. Each
  takes the arguments of a tool call, asks the session for a client, checks the
  arguments, calls the gateway and turns its result into a response or an error. The
  model passes the session and the client's answers in, and returns the outcome with the
  list of gateway calls made.
\<close>

section \<open>The values a tool invocation carries\<close>

text \<open>
  The handlers of \<^verbatim>\<open>ProjectHandler\<close> take \<^verbatim>\<open>args: any\<close>: the argument object of a
  tool call, parsed from JSON. \<open>jsval\<close> is the type of such values, with \<open>JUndefined\<close>
  for the result of reading a property that is not there. An object is an association
  list in insertion order; the first binding of a key is the one a read returns. The
  handlers test a string for emptiness, search it for a marker, compare it with a label
  and concatenate it; these give the same result in every encoding of its characters.
  A number parsed from JSON is a finite double, which is a rational, or an infinity (from
  a numeral beyond the range of doubles); it is never NaN. The handlers test a number for
  zero, compare a length with zero and show a number in a text, and compute nothing else
  with one.
\<close>

datatype number = Finite rat | PlusInfinity | MinusInfinity

datatype jsval =
    JUndefined
  | JNull
  | JBool bool
  | JNum number
  | JStr string
  | JArr "jsval list"
  | JObj "(string \<times> jsval) list"

type_synonym object = "(string \<times> jsval) list"

text \<open>
  What the code throws. \<open>Error c m\<close> is an instance of \<^verbatim>\<open>Error\<close> (or of a subclass of it)
  with message \<open>m\<close>; \<open>Thrown v\<close> is any other thrown value, which a gateway call may produce.
  \<open>PlainError\<close> is \<^verbatim>\<open>new Error(m)\<close> as the handlers write it, \<open>TypeError\<close> is what the runtime
  raises on a property read of \<^verbatim>\<open>null\<close> or \<^verbatim>\<open>undefined\<close>; \<open>AuthError\<close> and \<open>ValidationError\<close>
  are the two kinds the helpers of \<^verbatim>\<open>BaseHandler\<close> raise.
\<close>

datatype error_class = PlainError | TypeError | AuthError | ValidationError

datatype exn = Error error_class string | Thrown jsval

fun instanceof_Error :: "exn \<Rightarrow> bool" where
  "instanceof_Error (Error c m) = True"
| "instanceof_Error (Thrown v) = False"

fun message :: "exn \<Rightarrow> string" where
  "message (Error c m) = m"
| "message (Thrown v) = []"

text \<open>\<^verbatim>\<open>s.includes(t)\<close> on strings: \<open>t\<close> occurs in \<open>s\<close> as a contiguous run.\<close>

definition str_includes :: "string \<Rightarrow> string \<Rightarrow> bool" where
  "str_includes s t = sublist t s"

text \<open>Sequencing of steps that may throw: the first throw ends the sequence.\<close>

definition and_then :: "exn + 'a \<Rightarrow> ('a \<Rightarrow> exn + 'b) \<Rightarrow> exn + 'b" where
  "and_then m f = (case m of Inl e \<Rightarrow> Inl e | Inr x \<Rightarrow> f x)"

subsection \<open>Truthiness, property reads, array tests\<close>

fun truthy :: "jsval \<Rightarrow> bool" where
  "truthy JUndefined = False"
| "truthy JNull = False"
| "truthy (JBool b) = b"
| "truthy (JNum n) = (n \<noteq> Finite 0)"
| "truthy (JStr s) = (s \<noteq> [])"
| "truthy (JArr xs) = True"
| "truthy (JObj kvs) = True"

text \<open>
  \<open>prop_of v k\<close> is the value of \<^verbatim>\<open>v.k\<close> where the read does not throw, for the property names
  the handlers read (\<^verbatim>\<open>project\<close>, \<^verbatim>\<open>issues\<close>, \<^verbatim>\<open>teamIds\<close>, \<^verbatim>\<open>teamId\<close>, \<^verbatim>\<open>id\<close>, \<^verbatim>\<open>includeIssues\<close>,
  \<^verbatim>\<open>name\<close>, \<^verbatim>\<open>first\<close>, \<^verbatim>\<open>includeArchived\<close>, \<^verbatim>\<open>state\<close>, \<^verbatim>\<open>length\<close>): of these only \<^verbatim>\<open>length\<close> is
  defined by the runtime, on arrays and strings. \<open>get_prop\<close> is the read itself: on
  \<^verbatim>\<open>null\<close> and \<^verbatim>\<open>undefined\<close> it throws a TypeError (the message is that of Node's V8).
\<close>

fun prop_of :: "jsval \<Rightarrow> string \<Rightarrow> jsval" where
  "prop_of (JObj kvs) k = (case map_of kvs k of Some v \<Rightarrow> v | None \<Rightarrow> JUndefined)"
| "prop_of (JArr xs) k =
     (if k = ''length'' then JNum (Finite (of_nat (length xs))) else JUndefined)"
| "prop_of (JStr s) k =
     (if k = ''length'' then JNum (Finite (of_nat (length s))) else JUndefined)"
| "prop_of v k = JUndefined"

definition cannot_read :: "string \<Rightarrow> string \<Rightarrow> exn" where
  "cannot_read what k =
     Error TypeError (''Cannot read properties of '' @ what @ '' (reading ''
                      @ [CHR 0x27] @ k @ [CHR 0x27] @ '')'')"

fun get_prop :: "jsval \<Rightarrow> string \<Rightarrow> exn + jsval" where
  "get_prop JUndefined k = Inl (cannot_read ''undefined'' k)"
| "get_prop JNull k = Inl (cannot_read ''null'' k)"
| "get_prop v k = Inr (prop_of v k)"

fun isArray :: "jsval \<Rightarrow> bool" where
  "isArray (JArr xs) = True"
| "isArray v = False"

fun elements :: "jsval \<Rightarrow> jsval list" where
  "elements (JArr xs) = xs"
| "elements v = []"

subsection \<open>Template literals\<close>

text \<open>Decimal rendering of an index or a count, as \<^verbatim>\<open>`${index}`\<close> produces it.\<close>

definition digit :: "nat \<Rightarrow> char" where
  "digit d = ''0123456789'' ! (d mod 10)"

function show_nat :: "nat \<Rightarrow> string" where
  "show_nat n = (if n < 10 then [digit n] else show_nat (n div 10) @ [digit (n mod 10)])"
  by pat_completeness auto
termination
  by (relation "measure (\<lambda>n. n)") auto

declare show_nat.simps [simp del]

text \<open>
  \<open>to_string num_str v\<close> is \<^verbatim>\<open>`${v}`\<close>. How the runtime shows a number (in full, or with an
  exponent from \<^verbatim>\<open>1e21\<close> on, with the shortest digits that read back as the same double) is
  no code of this repository: \<open>num_str\<close> is that rendering, and is a parameter. An array is
  its elements joined by commas, with \<^verbatim>\<open>null\<close> and \<^verbatim>\<open>undefined\<close> elements rendered empty. An
  object parsed from JSON holds no function, so one with an own \<^verbatim>\<open>toString\<close> key has no
  callable conversion and the runtime throws a TypeError; any other object is
  \<^verbatim>\<open>[object Object]\<close>.
\<close>

definition no_primitive :: exn where
  "no_primitive = Error TypeError ''Cannot convert object to primitive value''"

fun to_string :: "(number \<Rightarrow> string) \<Rightarrow> jsval \<Rightarrow> exn + string"
  and join_elements :: "(number \<Rightarrow> string) \<Rightarrow> jsval list \<Rightarrow> exn + string"
  and element_string :: "(number \<Rightarrow> string) \<Rightarrow> jsval \<Rightarrow> exn + string" where
  "to_string num_str JUndefined = Inr ''undefined''"
| "to_string num_str JNull = Inr ''null''"
| "to_string num_str (JBool b) = Inr (if b then ''true'' else ''false'')"
| "to_string num_str (JNum n) = Inr (num_str n)"
| "to_string num_str (JStr s) = Inr s"
| "to_string num_str (JArr xs) = join_elements num_str xs"
| "to_string num_str (JObj kvs) =
     (if ''toString'' \<in> fst ` set kvs then Inl no_primitive else Inr ''[object Object]'')"
| "join_elements num_str [] = Inr []"
| "join_elements num_str [x] = element_string num_str x"
| "join_elements num_str (x # y # ys) =
     (case element_string num_str x of Inl e \<Rightarrow> Inl e
      | Inr s \<Rightarrow> (case join_elements num_str (y # ys) of Inl e \<Rightarrow> Inl e
                  | Inr r \<Rightarrow> Inr (s @ '','' @ r)))"
| "element_string num_str JUndefined = Inr []"
| "element_string num_str JNull = Inr []"
| "element_string num_str v = to_string num_str v"

text \<open>
  \<^verbatim>\<open>v > 0\<close>. Numbers compare by value, booleans and \<^verbatim>\<open>null\<close> convert to 1, 0 and 0,
  \<^verbatim>\<open>undefined\<close> to NaN. A string converts by the runtime's string-to-number conversion,
  which is no code of this repository: \<open>str_positive s\<close> says whether the string \<open>s\<close> converts
  to a number above zero, and is a parameter. An array converts through its string; an
  object without an own \<^verbatim>\<open>toString\<close> key converts to NaN.
\<close>

fun number_gt0 :: "number \<Rightarrow> bool" where
  "number_gt0 (Finite r) = (0 < r)"
| "number_gt0 PlusInfinity = True"
| "number_gt0 MinusInfinity = False"

fun js_gt0 :: "(number \<Rightarrow> string) \<Rightarrow> (string \<Rightarrow> bool) \<Rightarrow> jsval \<Rightarrow> exn + bool" where
  "js_gt0 num_str str_positive JUndefined = Inr False"
| "js_gt0 num_str str_positive JNull = Inr False"
| "js_gt0 num_str str_positive (JBool b) = Inr b"
| "js_gt0 num_str str_positive (JNum n) = Inr (number_gt0 n)"
| "js_gt0 num_str str_positive (JStr s) = Inr (str_positive s)"
| "js_gt0 num_str str_positive (JArr xs) =
     and_then (to_string num_str (JArr xs)) (\<lambda>s. Inr (str_positive s))"
| "js_gt0 num_str str_positive (JObj kvs) =
     (if ''toString'' \<in> fst ` set kvs then Inl no_primitive else Inr False)"

section \<open>The gateway client\<close>

text \<open>
  Modelled from the spec: the payload types of the gateway client are declared outside
  the source at hand. A mutation returns a wrapper of a success flag and an entity or a
  list, a read returns a plain query payload. The records below hold the fields the
  handlers read, with the types the handlers rely on: a field the code reads with \<^verbatim>\<open>?.\<close>
  or tests with \<^verbatim>\<open>&&\<close> is optional; the nodes of a project search are objects, whose
  \<^verbatim>\<open>state\<close> the handler reads through a cast to \<^verbatim>\<open>any\<close>; the result of \<^verbatim>\<open>getProject\<close> is read
  through such a cast as a whole and is a \<open>jsval\<close>.
\<close>

record Project =
  project_id :: string
  project_name :: string
  project_url :: string

record Issue =
  issue_identifier :: string
  issue_title :: string
  issue_url :: string

record ProjectCreate =
  pc_success :: bool
  pc_project :: Project

record IssueBatchCreate =
  ibc_success :: bool
  ibc_issues :: "Issue list"

record CreateProjectWithIssuesResponse =
  projectCreate :: ProjectCreate
  issueBatchCreate :: "IssueBatchCreate option"

record ProjectConnection =
  nodes :: "object list"

record SearchProjectsResponse =
  result_projects :: "ProjectConnection option"

record IssueConnection =
  issue_nodes :: "jsval list"

record SearchIssuesResponse =
  result_issues :: "IssueConnection option"

text \<open>
  A client answers each call with a payload or throws. Within one handler invocation no
  method is called twice, so a client is a function from the request to its outcome.
\<close>

record LinearGraphQLClient =
  createProjectWithIssues :: "jsval \<Rightarrow> jsval \<Rightarrow> exn + CreateProjectWithIssuesResponse"
  getProject :: "jsval \<Rightarrow> exn + jsval"
  searchIssues :: "jsval \<Rightarrow> exn + SearchIssuesResponse"
  searchProjects :: "jsval \<Rightarrow> jsval \<Rightarrow> exn + SearchProjectsResponse"

text \<open>The calls a handler made on the gateway, in order, with their arguments.\<close>

datatype gateway_call =
    CreateProjectWithIssues jsval jsval
  | GetProject jsval
  | SearchIssues jsval
  | SearchProjects jsval jsval

section \<open>The helpers of the base handler\<close>

text \<open>
  Modelled from the spec: \<^verbatim>\<open>ProjectHandler\<close> extends \<^verbatim>\<open>BaseHandler\<close>, whose file is not part
  of the source at hand. A response envelope is of kind text or json; an error record
  carries the operation attempted and the original error.
\<close>

datatype payload = ProjectPayload jsval | ProjectsPayload SearchProjectsResponse

datatype BaseToolResponse = TextResponse string | JsonResponse payload

record ErrorRecord =
  operation :: string
  cause :: exn

text \<open>
  Modelled from the spec: \<^verbatim>\<open>verifyAuth\<close> of \<^verbatim>\<open>BaseHandler\<close> is missing. The session
  provider returns a ready client, or raises AuthError when no valid session exists.
\<close>

definition verifyAuth :: "LinearGraphQLClient option \<Rightarrow> exn + LinearGraphQLClient" where
  "verifyAuth session =
     (case session of None \<Rightarrow> Inl (Error AuthError ''no valid session'')
      | Some client \<Rightarrow> Inr client)"

text \<open>
  Modelled from the spec: \<^verbatim>\<open>validateRequiredParams\<close> of \<^verbatim>\<open>BaseHandler\<close> is missing. For each
  declared required key, in order, it fails with \<^verbatim>\<open>ValidationError("missing field <name>")\<close>
  if the key is absent or undefined.
\<close>

fun validateRequiredParams :: "jsval \<Rightarrow> string list \<Rightarrow> exn + unit" where
  "validateRequiredParams params [] = Inr ()"
| "validateRequiredParams params (k # required) =
     and_then (get_prop params k) (\<lambda>v.
       if v = JUndefined then Inl (Error ValidationError (''missing field '' @ k))
       else validateRequiredParams params required)"

text \<open>
  Modelled from the spec: \<^verbatim>\<open>createResponse\<close> of \<^verbatim>\<open>BaseHandler\<close> is missing. The response
  envelope of kind text carries the text as its payload.
\<close>

definition createResponse :: "string \<Rightarrow> BaseToolResponse" where
  "createResponse text = TextResponse text"

text \<open>
  Modelled from the spec: \<^verbatim>\<open>createJsonResponse\<close> of \<^verbatim>\<open>BaseHandler\<close> is missing. The response
  envelope of kind json passes the structured payload through.
\<close>

definition createJsonResponse :: "payload \<Rightarrow> BaseToolResponse" where
  "createJsonResponse data = JsonResponse data"

text \<open>
  Modelled from the spec: \<^verbatim>\<open>handleError\<close> of \<^verbatim>\<open>BaseHandler\<close> is missing. A failure caught at
  the handler boundary is re-raised as one error record that carries the original error
  as its cause, wrapped with the operation being attempted.
\<close>

definition handleError :: "exn \<Rightarrow> string \<Rightarrow> ErrorRecord" where
  "handleError error op = \<lparr> operation = op, cause = error \<rparr>"

text \<open>
  A handler's body is a \<^verbatim>\<open>try\<close> block whose \<^verbatim>\<open>catch\<close> hands the error to \<^verbatim>\<open>handleError\<close>. The
  outcome of an invocation is the response returned or the error record raised, with the
  gateway calls made on the way.
\<close>

type_synonym attempt = "(exn + BaseToolResponse) \<times> gateway_call list"

type_synonym outcome = "(ErrorRecord + BaseToolResponse) \<times> gateway_call list"

definition catch_handleError :: "string \<Rightarrow> attempt \<Rightarrow> outcome" where
  "catch_handleError op r =
     (case fst r of Inl error \<Rightarrow> (Inl (handleError error op), snd r)
      | Inr response \<Rightarrow> (Inr response, snd r))"


section \<open>Creating a project with its issues\<close>

text \<open>
  The fields that the input schema of \<^verbatim>\<open>linear_create_project_with_issues\<close> requires of the
  project and of each issue (lines 106 and 126 of the schema catalogue). The fields it
  requires of the arguments, \<^verbatim>\<open>project\<close> and \<^verbatim>\<open>issues\<close> (line 134), are the two that the handler
  passes to \<^verbatim>\<open>validateRequiredParams\<close>.
\<close>

definition project_required :: "string list" where
  "project_required = [''name'', ''teamIds'']"

definition issue_required :: "string list" where
  "issue_required = [''title'', ''description'', ''teamId'']"

text \<open>The two messages of the structural checks, as the source concatenates them.\<close>

definition teamIds_required :: string where
  \<open>teamIds_required =
     ''Project requires teamIds as an array with at least one team ID.\<newline>'' @
     ''Example:\<newline>'' @
     ''{\<newline>'' @
     ''  project: {\<newline>'' @
     ''    name: "Project Name",\<newline>'' @
     ''    teamIds: ["team-id-1"]\<newline>'' @
     ''  },\<newline>'' @
     ''  issues: [{ title: "Issue Title", teamId: "team-id-1" }]\<newline>'' @
     ''}''\<close>

definition issues_not_array :: string where
  \<open>issues_not_array =
     ''Issues parameter must be an array of issue objects.\<newline>'' @
     ''Example: issues: [{ title: "Issue Title", teamId: "team-id-1" }]''\<close>

definition issue_missing_teamId :: "nat \<Rightarrow> string" where
  "issue_missing_teamId index =
     ''Issue at index '' @ show_nat index @ '' is missing required teamId.\<newline>'' @
     ''Each issue must have a teamId that matches one of the project teamIds.''"

text \<open>
  The \<^verbatim>\<open>forEach\<close> over \<^verbatim>\<open>args.issues\<close> (lines 534 to 541): the callback throws at the first
  issue whose \<^verbatim>\<open>teamId\<close> is falsy, and the throw ends the loop.
\<close>

fun validateIssues :: "nat \<Rightarrow> jsval list \<Rightarrow> exn + unit" where
  "validateIssues index [] = Inr ()"
| "validateIssues index (issue # rest) =
     and_then (get_prop issue ''teamId'') (\<lambda>teamId.
       if \<not> truthy teamId then Inl (Error PlainError (issue_missing_teamId index))
       else validateIssues (Suc index) rest)"

text \<open>
  The checks between \<^verbatim>\<open>verifyAuth\<close> and the gateway call (lines 509 to 541). They yield the
  two arguments of the call, \<^verbatim>\<open>args.project\<close> and \<^verbatim>\<open>args.issues\<close>.
\<close>

definition validateCreateProjectWithIssues :: "jsval \<Rightarrow> exn + jsval \<times> jsval" where
  "validateCreateProjectWithIssues args =
     and_then (validateRequiredParams args [''project'', ''issues'']) (\<lambda>_.
     and_then (get_prop args ''project'') (\<lambda>project.
     and_then (get_prop project ''teamIds'') (\<lambda>teamIds.
       if \<not> truthy teamIds \<or> \<not> isArray teamIds \<or> length (elements teamIds) = 0
       then Inl (Error PlainError teamIds_required)
       else
     and_then (get_prop args ''issues'') (\<lambda>issues.
       if \<not> isArray issues
       then Inl (Error PlainError issues_not_array)
       else
     and_then (validateIssues 0 (elements issues)) (\<lambda>_.
       Inr (project, issues))))))"

text \<open>The lines of the success text, joined by \<^verbatim>\<open>join('\n')\<close>.\<close>

fun join_lines :: "string list \<Rightarrow> string" where
  "join_lines [] = []"
| "join_lines [l] = l"
| "join_lines (l # m # ls) = l @ ''\<newline>'' @ join_lines (m # ls)"

definition issue_line :: "Issue \<Rightarrow> string" where
  "issue_line issue =
     ''- '' @ issue_identifier issue @ '': '' @ issue_title issue
       @ '' ('' @ issue_url issue @ '')''"

text \<open>What the handler makes of the gateway's result (lines 548 to 569).\<close>

definition createProjectWithIssues_result ::
    "CreateProjectWithIssuesResponse \<Rightarrow> exn + BaseToolResponse" where
  "createProjectWithIssues_result result =
     (if \<not> pc_success (projectCreate result)
         \<or> (case issueBatchCreate result of None \<Rightarrow> False
             | Some batch \<Rightarrow> \<not> ibc_success batch)
      then Inl (Error PlainError ''Failed to create project or issues'')
      else
        let project = pc_project (projectCreate result);
            created = (case issueBatchCreate result of None \<Rightarrow> []
                       | Some batch \<Rightarrow> ibc_issues batch);
            issuesCreated = length created;
            response = [''Successfully created project with issues'',
                        ''Project: '' @ project_name project,
                        ''Project URL: '' @ project_url project]
              @ (if issuesCreated > 0
                 then (''Issues created: '' @ show_nat issuesCreated) # map issue_line created
                 else [])
        in Inr (createResponse (join_lines response)))"

text \<open>The body of the \<^verbatim>\<open>try\<close> block (lines 508 to 569), and the handler with its \<^verbatim>\<open>catch\<close>.\<close>

definition tryCreateProjectWithIssues ::
    "LinearGraphQLClient option \<Rightarrow> jsval \<Rightarrow> attempt" where
  "tryCreateProjectWithIssues session args =
     (case verifyAuth session of
        Inl error \<Rightarrow> (Inl error, [])
      | Inr client \<Rightarrow>
          (case validateCreateProjectWithIssues args of
             Inl error \<Rightarrow> (Inl error, [])
           | Inr (project, issues) \<Rightarrow>
               (case createProjectWithIssues client project issues of
                  Inl error \<Rightarrow> (Inl error, [CreateProjectWithIssues project issues])
                | Inr result \<Rightarrow>
                    (createProjectWithIssues_result result,
                     [CreateProjectWithIssues project issues]))))"

definition handleCreateProjectWithIssues ::
    "LinearGraphQLClient option \<Rightarrow> jsval \<Rightarrow> outcome" where
  "handleCreateProjectWithIssues session args =
     catch_handleError ''create project with issues'' (tryCreateProjectWithIssues session args)"


section \<open>Getting a project\<close>

text \<open>
  \<^verbatim>\<open>(result as any).project.issues = nodes\<close>, in the strict mode of a class body. The
  project is truthy where the assignment runs. An object takes the property, in place if
  it has one of that name and at the end otherwise; an array takes it too, and its JSON
  rendering does not show it; on a string, a number or a boolean the runtime throws a
  TypeError (the message is that of Node's V8).
\<close>

definition cannot_create :: "string \<Rightarrow> string \<Rightarrow> exn" where
  "cannot_create kind shown =
     Error TypeError (''Cannot create property '' @ [CHR 0x27] @ ''issues'' @ [CHR 0x27]
                      @ '' on '' @ kind @ '' '' @ [CHR 0x27] @ shown @ [CHR 0x27])"

fun set_issues :: "(number \<Rightarrow> string) \<Rightarrow> jsval \<Rightarrow> jsval \<Rightarrow> exn + jsval" where
  "set_issues num_str (JObj kvs) v = Inr (JObj (AList.update ''issues'' v kvs))"
| "set_issues num_str (JArr xs) v = Inr (JArr xs)"
| "set_issues num_str (JStr s) v = Inl (cannot_create ''string'' s)"
| "set_issues num_str (JNum n) v = Inl (cannot_create ''number'' (num_str n))"
| "set_issues num_str (JBool b) v = Inl (cannot_create ''boolean'' (if b then ''true'' else ''false''))"
| "set_issues num_str JNull v =
     Inl (Error TypeError (''Cannot set properties of null (setting ''
                           @ [CHR 0x27] @ ''issues'' @ [CHR 0x27] @ '')''))"
| "set_issues num_str JUndefined v =
     Inl (Error TypeError (''Cannot set properties of undefined (setting ''
                           @ [CHR 0x27] @ ''issues'' @ [CHR 0x27] @ '')''))"

text \<open>The result with its project replaced by the updated one: the two are one object.\<close>

fun with_project :: "jsval \<Rightarrow> jsval \<Rightarrow> jsval" where
  "with_project (JObj kvs) project = JObj (AList.update ''project'' project kvs)"
| "with_project v project = v"

text \<open>
  The inner \<^verbatim>\<open>try\<close> block (lines 586 to 601): the lookup, and the issues where the caller
  asks for them.
\<close>

definition lookupProject ::
    "(number \<Rightarrow> string) \<Rightarrow> LinearGraphQLClient \<Rightarrow> jsval \<Rightarrow> jsval \<Rightarrow> attempt" where
  "lookupProject num_str client args includeIssues =
     (case get_prop args ''id'' of
        Inl error \<Rightarrow> (Inl error, [])
      | Inr ident \<Rightarrow>
          (case getProject client ident of
             Inl error \<Rightarrow> (Inl error, [GetProject ident])
           | Inr result \<Rightarrow>
               if truthy includeIssues \<and> truthy result \<and> truthy (prop_of result ''project'')
               then
                 let query = JObj [(''project'', JObj [(''id'', JObj [(''eq'', ident)])])];
                     calls = [GetProject ident, SearchIssues query]
                 in (case searchIssues client query of
                       Inl error \<Rightarrow> (Inl error, calls)
                     | Inr issuesResult \<Rightarrow>
                         (case result_issues issuesResult of
                            None \<Rightarrow> (Inr (createJsonResponse (ProjectPayload result)), calls)
                          | Some connection \<Rightarrow>
                              (case set_issues num_str (prop_of result ''project'')
                                      (JArr (issue_nodes connection)) of
                                 Inl error \<Rightarrow> (Inl error, calls)
                               | Inr project \<Rightarrow>
                                   (Inr (createJsonResponse
                                           (ProjectPayload (with_project result project))),
                                    calls))))
               else (Inr (createJsonResponse (ProjectPayload result)), [GetProject ident])))"

text \<open>
  The test of the inner \<^verbatim>\<open>catch\<close> (lines 604 to 608): the error is one for a project that
  does not exist.
\<close>

definition entity_not_found :: "exn \<Rightarrow> bool" where
  "entity_not_found error \<longleftrightarrow>
     instanceof_Error error \<and>
     (str_includes (message error) ''Entity not found'' \<or>
      str_includes (message error) ''Could not find referenced Project'')"

definition does_not_exist :: "string \<Rightarrow> string" where
  \<open>does_not_exist ident = ''Project with ID "'' @ ident @ ''" does not exist''\<close>

text \<open>
  The body of the outer \<^verbatim>\<open>try\<close> block (lines 580 to 614): an error of the inner block is
  answered by the text or thrown again.
\<close>

definition tryGetProject ::
    "(number \<Rightarrow> string) \<Rightarrow> LinearGraphQLClient option \<Rightarrow> jsval \<Rightarrow> attempt" where
  "tryGetProject num_str session args =
     (case verifyAuth session of
        Inl error \<Rightarrow> (Inl error, [])
      | Inr client \<Rightarrow>
          (case and_then (validateRequiredParams args [''id''])
                  (\<lambda>_. get_prop args ''includeIssues'') of
             Inl error \<Rightarrow> (Inl error, [])
           | Inr v \<Rightarrow>
               let includeIssues = (if truthy v then v else JBool False)
               in (case lookupProject num_str client args includeIssues of
                     (Inr response, calls) \<Rightarrow> (Inr response, calls)
                   | (Inl error, calls) \<Rightarrow>
                       if entity_not_found error
                       then (and_then (and_then (get_prop args ''id'') (to_string num_str))
                               (\<lambda>ident. Inr (createResponse (does_not_exist ident))),
                             calls)
                       else (Inl error, calls))))"

definition handleGetProject ::
    "(number \<Rightarrow> string) \<Rightarrow> LinearGraphQLClient option \<Rightarrow> jsval \<Rightarrow> outcome" where
  "handleGetProject num_str session args =
     catch_handleError ''get project info'' (tryGetProject num_str session args)"

section \<open>Searching projects\<close>

definition name_or_teamIds :: string where
  "name_or_teamIds = ''At least a project name or teamIds must be provided for search''"

text \<open>
  The check of the two alternatives (lines 628 to 630). \<^verbatim>\<open>&&\<close> reads \<^verbatim>\<open>args.teamIds\<close> only
  where \<^verbatim>\<open>args.name\<close> is falsy.
\<close>

definition requireNameOrTeamIds :: "jsval \<Rightarrow> exn + unit" where
  "requireNameOrTeamIds args =
     and_then (get_prop args ''name'') (\<lambda>name.
       if truthy name then Inr ()
       else
     and_then (get_prop args ''teamIds'') (\<lambda>teamIds.
       if \<not> truthy teamIds \<or> \<not> isArray teamIds \<or> length (elements teamIds) = 0
       then Inl (Error PlainError name_or_teamIds)
       else Inr ()))"

text \<open>
  The filter sent upstream (lines 633 to 641), an object built key by key. The test of
  the team clause is \<^verbatim>\<open>args.teamIds && args.teamIds.length > 0\<close>.
\<close>

definition buildFilter ::
    "(number \<Rightarrow> string) \<Rightarrow> (string \<Rightarrow> bool) \<Rightarrow> jsval \<Rightarrow> exn + jsval" where
  "buildFilter num_str str_positive args =
     and_then (get_prop args ''name'') (\<lambda>name.
     and_then (get_prop args ''teamIds'') (\<lambda>teamIds.
     and_then (if truthy teamIds then js_gt0 num_str str_positive (prop_of teamIds ''length'')
               else Inr False) (\<lambda>hasTeams.
       let filter0 = [];
           filter1 = (if truthy name
                      then AList.update ''name'' (JObj [(''contains'', name)]) filter0
                      else filter0);
           filter2 = (if hasTeams
                      then AList.update ''team''
                             (JObj [(''id'', JObj [(''in'', teamIds)])]) filter1
                      else filter1)
       in Inr (JObj filter2))))"

text \<open>
  The statements before the gateway call (lines 627 to 644): the filter, the limit, the
  archive flag.
\<close>

definition searchProjects_request ::
    "(number \<Rightarrow> string) \<Rightarrow> (string \<Rightarrow> bool) \<Rightarrow> jsval
       \<Rightarrow> exn + jsval \<times> jsval \<times> jsval" where
  "searchProjects_request num_str str_positive args =
     and_then (requireNameOrTeamIds args) (\<lambda>_.
     and_then (buildFilter num_str str_positive args) (\<lambda>query.
     and_then (get_prop args ''first'') (\<lambda>limit.
     and_then (get_prop args ''includeArchived'') (\<lambda>flag.
       let first = (if truthy limit then limit else JNum (Finite 50));
           includeArchived = (if truthy flag then flag else JBool False)
       in Inr (query, first, includeArchived)))))"

text \<open>
  The predicate of the client-side filter (lines 649 to 656), negated: the project's
  \<^verbatim>\<open>state\<close>, or the empty string where that is falsy, is one of the three labels.
\<close>

definition archived_labels :: "jsval list" where
  "archived_labels = [JStr ''Archived'', JStr ''Canceled'', JStr ''Completed'']"

definition archived :: "object \<Rightarrow> bool" where
  "archived project =
     (let state = prop_of (JObj project) ''state''
      in (if truthy state then state else JStr []) \<in> set archived_labels)"

definition filterArchived :: "jsval \<Rightarrow> SearchProjectsResponse \<Rightarrow> SearchProjectsResponse" where
  "filterArchived includeArchived result =
     (if \<not> truthy includeArchived
      then (case result_projects result of
              None \<Rightarrow> result
            | Some connection \<Rightarrow>
                result\<lparr> result_projects :=
                  Some (connection\<lparr> nodes := filter (\<lambda>project. \<not> archived project)
                                                    (nodes connection) \<rparr>) \<rparr>)
      else result)"

text \<open>
  The response (lines 658 to 664): the text for a list that is empty after the filter,
  the payload otherwise.
\<close>

definition no_projects_found :: "string \<Rightarrow> string" where
  "no_projects_found shown = ''No projects found matching the search criteria '' @ shown"

definition searchProjects_result ::
    "(number \<Rightarrow> string) \<Rightarrow> jsval \<Rightarrow> jsval \<Rightarrow> SearchProjectsResponse
       \<Rightarrow> exn + BaseToolResponse" where
  "searchProjects_result num_str args includeArchived result0 =
     (let result = filterArchived includeArchived result0
      in case result_projects result of
           None \<Rightarrow> Inr (createJsonResponse (ProjectsPayload result))
         | Some connection \<Rightarrow>
             if length (nodes connection) = 0
             then and_then (get_prop args ''name'') (\<lambda>name.
                  and_then (if truthy name
                            then and_then (to_string num_str name)
                                   (\<lambda>s. Inr ([CHR 0x27] @ s @ [CHR 0x27]))
                            else Inr []) (\<lambda>shown.
                    Inr (createResponse (no_projects_found shown))))
             else Inr (createJsonResponse (ProjectsPayload result)))"

text \<open>The body of the \<^verbatim>\<open>try\<close> block (lines 625 to 664), and the handler with its \<^verbatim>\<open>catch\<close>.\<close>

definition trySearchProjects ::
    "(number \<Rightarrow> string) \<Rightarrow> (string \<Rightarrow> bool) \<Rightarrow> LinearGraphQLClient option \<Rightarrow> jsval
       \<Rightarrow> attempt" where
  "trySearchProjects num_str str_positive session args =
     (case verifyAuth session of
        Inl error \<Rightarrow> (Inl error, [])
      | Inr client \<Rightarrow>
          (case searchProjects_request num_str str_positive args of
             Inl error \<Rightarrow> (Inl error, [])
           | Inr (query, first, includeArchived) \<Rightarrow>
               (case searchProjects client query first of
                  Inl error \<Rightarrow> (Inl error, [SearchProjects query first])
                | Inr result \<Rightarrow>
                    (searchProjects_result num_str args includeArchived result,
                     [SearchProjects query first]))))"

definition handleSearchProjects ::
    "(number \<Rightarrow> string) \<Rightarrow> (string \<Rightarrow> bool) \<Rightarrow> LinearGraphQLClient option \<Rightarrow> jsval
       \<Rightarrow> outcome" where
  "handleSearchProjects num_str str_positive session args =
     catch_handleError ''search projects'' (trySearchProjects num_str str_positive session args)"


section \<open>What a response and an error record show\<close>

text \<open>A value whose properties can be read: neither \<^verbatim>\<open>undefined\<close> nor \<^verbatim>\<open>null\<close>.\<close>

definition readable :: "jsval \<Rightarrow> bool" where
  "readable v \<longleftrightarrow> v \<noteq> JUndefined \<and> v \<noteq> JNull"

text \<open>
  The error record names a project when the identifier and the URL of the project both
  occur in the message of the error it carries.
\<close>

definition names_project :: "ErrorRecord \<Rightarrow> Project \<Rightarrow> bool" where
  "names_project record project \<longleftrightarrow>
     str_includes (message (cause record)) (project_id project) \<and>
     str_includes (message (cause record)) (project_url project)"

text \<open>The projects a response of the project search returns: a text returns none.\<close>

fun returned_projects :: "BaseToolResponse \<Rightarrow> object list" where
  "returned_projects (JsonResponse (ProjectsPayload result)) =
     (case result_projects result of None \<Rightarrow> [] | Some connection \<Rightarrow> nodes connection)"
| "returned_projects response = []"

section \<open>Example invocations\<close>

definition created_project :: Project where
  "created_project =
     \<lparr> project_id = ''proj-1'', project_name = ''Q1 Planning'',
       project_url = ''https://linear.app/acme/project/q1-planning'' \<rparr>"

definition created_issue :: Issue where
  "created_issue =
     \<lparr> issue_identifier = ''ACME-1'', issue_title = ''Setup'',
       issue_url = ''https://linear.app/acme/issue/ACME-1'' \<rparr>"

definition found_projects :: "object list" where
  "found_projects =
     [[(''id'', JStr ''p1''), (''name'', JStr ''Roadmap''), (''state'', JStr ''Started'')],
      [(''id'', JStr ''p2''), (''name'', JStr ''Roadmap 2023''), (''state'', JStr ''Completed'')],
      [(''id'', JStr ''p3''), (''name'', JStr ''Roadmap drafts'')]]"

definition created_all :: "jsval \<Rightarrow> jsval \<Rightarrow> exn + CreateProjectWithIssuesResponse" where
  "created_all project issues =
     Inr \<lparr> projectCreate = \<lparr> pc_success = True, pc_project = created_project \<rparr>,
           issueBatchCreate = Some \<lparr> ibc_success = True, ibc_issues = [created_issue] \<rparr> \<rparr>"

definition batch_failed :: "jsval \<Rightarrow> jsval \<Rightarrow> exn + CreateProjectWithIssuesResponse" where
  "batch_failed project issues =
     Inr \<lparr> projectCreate = \<lparr> pc_success = True, pc_project = created_project \<rparr>,
           issueBatchCreate = Some \<lparr> ibc_success = False, ibc_issues = [] \<rparr> \<rparr>"

definition project_only :: "jsval \<Rightarrow> jsval \<Rightarrow> exn + CreateProjectWithIssuesResponse" where
  "project_only project issues =
     Inr \<lparr> projectCreate = \<lparr> pc_success = True, pc_project = created_project \<rparr>,
           issueBatchCreate = None \<rparr>"

definition project_found :: "jsval \<Rightarrow> exn + jsval" where
  "project_found ident = Inr (JObj [(''project'', JObj [(''id'', ident)])])"

definition project_missing :: "jsval \<Rightarrow> exn + jsval" where
  "project_missing ident = Inl (Error PlainError ''Entity not found: Project'')"

definition no_issues :: "jsval \<Rightarrow> exn + SearchIssuesResponse" where
  "no_issues query = Inr \<lparr> result_issues = Some \<lparr> issue_nodes = [] \<rparr> \<rparr>"

definition projects_found :: "jsval \<Rightarrow> jsval \<Rightarrow> exn + SearchProjectsResponse" where
  "projects_found query first = Inr \<lparr> result_projects = Some \<lparr> nodes = found_projects \<rparr> \<rparr>"

definition only_archived_found :: "jsval \<Rightarrow> jsval \<Rightarrow> exn + SearchProjectsResponse" where
  "only_archived_found query first =
     Inr \<lparr> result_projects =
             Some \<lparr> nodes = [[(''id'', JStr ''p2''), (''state'', JStr ''Archived'')]] \<rparr> \<rparr>"

definition example_client :: LinearGraphQLClient where
  "example_client =
     \<lparr> createProjectWithIssues = created_all, getProject = project_found,
       searchIssues = no_issues, searchProjects = projects_found \<rparr>"

definition example_create_args :: jsval where
  "example_create_args =
     JObj [(''project'', JObj [(''name'', JStr ''Q1 Planning''),
                              (''teamIds'', JArr [JStr ''team-1''])]),
           (''issues'', JArr [JObj [(''title'', JStr ''Setup''),
                                     (''description'', JStr ''init''),
                                     (''teamId'', JStr ''team-1'')]])]"

definition third_issue_without_teamId :: jsval where
  "third_issue_without_teamId =
     JObj [(''project'', JObj [(''name'', JStr ''Q1 Planning''),
                              (''teamIds'', JArr [JStr ''team-1''])]),
           (''issues'', JArr [JObj [(''title'', JStr ''Setup''), (''teamId'', JStr ''team-1'')],
                             JObj [(''title'', JStr ''Plan''), (''teamId'', JStr ''team-1'')],
                             JObj [(''title'', JStr ''Review'')],
                             JObj [(''title'', JStr ''Ship'')]])]"

definition teamIds_not_an_array :: jsval where
  "teamIds_not_an_array =
     JObj [(''project'', JObj [(''name'', JStr ''Q1 Planning''), (''teamIds'', JStr ''team-1'')]),
           (''issues'', JArr [])]"

definition issues_not_an_array :: jsval where
  "issues_not_an_array =
     JObj [(''project'', JObj [(''name'', JStr ''Q1 Planning''),
                              (''teamIds'', JArr [JStr ''team-1''])]),
           (''issues'', JObj [(''title'', JStr ''Setup''), (''teamId'', JStr ''team-1'')])]"

definition lookup_args :: jsval where
  "lookup_args = JObj [(''id'', JStr ''proj-404'')]"

definition search_by_name :: jsval where
  "search_by_name = JObj [(''name'', JStr ''Roadmap'')]"

definition search_with_archived :: jsval where
  "search_with_archived = JObj [(''name'', JStr ''Roadmap''), (''includeArchived'', JBool True)]"

definition search_by_teamIds :: jsval where
  "search_by_teamIds = JObj [(''teamIds'', JArr [JStr ''team-1''])]"

definition search_with_teamIds_string :: jsval where
  "search_with_teamIds_string = JObj [(''name'', JStr ''Roadmap''), (''teamIds'', JStr ''team-1'')]"

definition project_failed :: "jsval \<Rightarrow> jsval \<Rightarrow> exn + CreateProjectWithIssuesResponse" where
  "project_failed project issues =
     Inr \<lparr> projectCreate = \<lparr> pc_success = False, pc_project = created_project \<rparr>,
           issueBatchCreate = None \<rparr>"

definition name_and_titles_missing :: jsval where
  "name_and_titles_missing =
     JObj [(''project'', JObj [(''teamIds'', JArr [JStr ''team-1''])]),
           (''issues'', JArr [JObj [(''teamId'', JStr ''team-1'')]])]"

text \<open>
  A rendering of numbers for the example invocations. It agrees with the runtime on the
  integers below \<open>2 ^ 53\<close> in magnitude and on the infinities; the examples show no other
  number.
\<close>

definition example_number_text :: "number \<Rightarrow> string" where
  "example_number_text n =
     (case n of
        Finite r \<Rightarrow> (if r < 0 then ''-'' else []) @ show_nat (nat \<lfloor>\<bar>r\<bar>\<rfloor>)
      | PlusInfinity \<Rightarrow> ''Infinity''
      | MinusInfinity \<Rightarrow> ''-Infinity'')"

text \<open>
  A stand-in for the conversion of strings to numbers in the example invocations, none of
  which compares a string with zero.
\<close>

definition never_gt0 :: "string \<Rightarrow> bool" where
  "never_gt0 s = False"

section \<open>Properties of the helpers\<close>

lemma catch_handleError_Inl [simp]:
  "catch_handleError op (Inl error, calls) = (Inl (handleError error op), calls)"
  by (simp add: catch_handleError_def)

lemma catch_handleError_Inr [simp]:
  "catch_handleError op (Inr response, calls) = (Inr response, calls)"
  by (simp add: catch_handleError_def)

lemma snd_catch_handleError [simp]: "snd (catch_handleError op r) = snd r"
  by (simp add: catch_handleError_def split: sum.split)

lemma and_then_Inl [simp]: "and_then (Inl e) f = Inl e"
  by (simp add: and_then_def)

lemma and_then_Inr [simp]: "and_then (Inr x) f = f x"
  by (simp add: and_then_def)

lemma get_prop_readable [simp]: "readable v \<Longrightarrow> get_prop v k = Inr (prop_of v k)"
  by (cases v) (simp_all add: readable_def)

lemma truthy_readable: "truthy v \<Longrightarrow> readable v"
  by (cases v) (simp_all add: readable_def)

lemma truthy_prop_readable: "truthy (prop_of v k) \<Longrightarrow> readable v"
  by (cases v) (simp_all add: readable_def)

lemma verifyAuth_Some [simp]: "verifyAuth (Some client) = Inr client"
  by (simp add: verifyAuth_def)

lemma verifyAuth_None [simp]: "verifyAuth None = Inl (Error AuthError ''no valid session'')"
  by (simp add: verifyAuth_def)

lemma str_includes_middle: "str_includes (p @ t @ q) t"
  by (simp add: str_includes_def sublist_appendI)

lemma join_lines_three: "join_lines [a, b, c] = a @ ''\<newline>'' @ b @ ''\<newline>'' @ c"
  by simp

section \<open>The session comes first\<close>

text \<open>
  Claim C4. Invoked without a valid session, a handler fails with the AuthError of
  \<^verbatim>\<open>verifyAuth\<close>, whatever the arguments are, so before any validation of them, and the
  list of gateway calls is empty. This holds for all three handlers.
\<close>

theorem no_session_fails_with_AuthError:
  "handleCreateProjectWithIssues None args =
     (Inl (handleError (Error AuthError ''no valid session'') ''create project with issues''), [])
   \<and> handleGetProject num_str None args =
     (Inl (handleError (Error AuthError ''no valid session'') ''get project info''), [])
   \<and> handleSearchProjects num_str str_positive None args =
     (Inl (handleError (Error AuthError ''no valid session'') ''search projects''), [])"
  by (simp add: handleCreateProjectWithIssues_def tryCreateProjectWithIssues_def
      handleGetProject_def tryGetProject_def handleSearchProjects_def trySearchProjects_def)

theorem no_session_fails_with_AuthError_witness:
  "handleCreateProjectWithIssues None example_create_args =
     (Inl \<lparr> operation = ''create project with issues'',
            cause = Error AuthError ''no valid session'' \<rparr>, [])
   \<and> handleGetProject example_number_text None JNull =
     (Inl \<lparr> operation = ''get project info'',
            cause = Error AuthError ''no valid session'' \<rparr>, [])
   \<and> handleSearchProjects example_number_text never_gt0 None (JObj []) =
     (Inl \<lparr> operation = ''search projects'',
            cause = Error AuthError ''no valid session'' \<rparr>, [])"
  using no_session_fails_with_AuthError [where args = example_create_args]
    no_session_fails_with_AuthError [where args = JNull and num_str = example_number_text]
    no_session_fails_with_AuthError
      [where args = "JObj []" and num_str = example_number_text and str_positive = never_gt0]
  by (simp add: handleError_def)


section \<open>Creating a project with its issues: the result of the gateway\<close>

lemma create_after_validation:
  assumes "validateCreateProjectWithIssues args = Inr (project, issues)"
    and "createProjectWithIssues client project issues = Inr result"
  shows "handleCreateProjectWithIssues (Some client) args =
     catch_handleError ''create project with issues''
       (createProjectWithIssues_result result, [CreateProjectWithIssues project issues])"
  using assms
  by (simp add: handleCreateProjectWithIssues_def tryCreateProjectWithIssues_def)

lemma example_create_args_valid:
  "validateCreateProjectWithIssues example_create_args =
     Inr (prop_of example_create_args ''project'', prop_of example_create_args ''issues'')"
  by (simp add: validateCreateProjectWithIssues_def example_create_args_def)

text \<open>
  Claim C10. Where the project was created and the result of the gateway has no
  \<^verbatim>\<open>issueBatchCreate\<close> field, the handler returns the success text of three lines, the
  heading, the project's name and its URL, with no line of issues, and raises nothing,
  whatever the list of issues in the arguments was.
\<close>

theorem project_without_batch_reports_project_only:
  assumes "validateCreateProjectWithIssues args = Inr (project, issues)"
    and "createProjectWithIssues client project issues = Inr result"
    and "pc_success (projectCreate result)"
    and "issueBatchCreate result = None"
  shows "handleCreateProjectWithIssues (Some client) args =
     (Inr (TextResponse
        (''Successfully created project with issues\<newline>'' @
         ''Project: '' @ project_name (pc_project (projectCreate result)) @ ''\<newline>'' @
         ''Project URL: '' @ project_url (pc_project (projectCreate result)))),
      [CreateProjectWithIssues project issues])"
proof -
  have "createProjectWithIssues_result result =
     Inr (createResponse (join_lines
       [''Successfully created project with issues'',
        ''Project: '' @ project_name (pc_project (projectCreate result)),
        ''Project URL: '' @ project_url (pc_project (projectCreate result))]))"
    using assms(3,4) by (simp add: createProjectWithIssues_result_def Let_def)
  then show ?thesis
    using create_after_validation [OF assms(1,2)]
    by (simp add: createResponse_def)
qed

theorem project_without_batch_reports_project_only_witness:
  "handleCreateProjectWithIssues
     (Some (example_client\<lparr> createProjectWithIssues := project_only \<rparr>)) example_create_args =
     (Inr (TextResponse
        (''Successfully created project with issues\<newline>'' @
         ''Project: Q1 Planning\<newline>'' @
         ''Project URL: https://linear.app/acme/project/q1-planning'')),
      [CreateProjectWithIssues
         (JObj [(''name'', JStr ''Q1 Planning''), (''teamIds'', JArr [JStr ''team-1''])])
         (JArr [JObj [(''title'', JStr ''Setup''), (''description'', JStr ''init''),
                      (''teamId'', JStr ''team-1'')]])])"
  using project_without_batch_reports_project_only
    [of example_create_args "prop_of example_create_args ''project''"
        "prop_of example_create_args ''issues''"
        "example_client\<lparr> createProjectWithIssues := project_only \<rparr>"
        "\<lparr> projectCreate = \<lparr> pc_success = True, pc_project = created_project \<rparr>,
           issueBatchCreate = None \<rparr>",
     OF example_create_args_valid]
  by (simp add: project_only_def created_project_def example_create_args_def)

text \<open>
  Claim C1, as the code has it. Where the project was created and the batch of issues
  reports \<^verbatim>\<open>success\<close> false, the handler fails, after its one gateway call, with the error
  \<^verbatim>\<open>Failed to create project or issues\<close> for the operation \<^verbatim>\<open>create project with issues\<close>. It
  fails with the same error where the creation of the project reports \<^verbatim>\<open>success\<close> false, so
  the error does not tell which step failed; and the error is this one, with this fixed
  message, whatever the project created is.
\<close>

theorem failed_step_raises_one_generic_error:
  assumes "validateCreateProjectWithIssues args = Inr (project, issues)"
    and "createProjectWithIssues client project issues = Inr result"
    and "(pc_success (projectCreate result)
          \<and> issueBatchCreate result = Some batch \<and> \<not> ibc_success batch)
         \<or> \<not> pc_success (projectCreate result)"
  shows "handleCreateProjectWithIssues (Some client) args =
     (Inl (handleError (Error PlainError ''Failed to create project or issues'')
             ''create project with issues''),
      [CreateProjectWithIssues project issues])"
proof -
  have "createProjectWithIssues_result result =
     Inl (Error PlainError ''Failed to create project or issues'')"
    using assms(3) by (auto simp add: createProjectWithIssues_result_def)
  then show ?thesis
    using create_after_validation [OF assms(1,2)] by simp
qed

theorem failed_step_raises_one_generic_error_witness:
  "handleCreateProjectWithIssues
     (Some (example_client\<lparr> createProjectWithIssues := batch_failed \<rparr>)) example_create_args =
     (Inl \<lparr> operation = ''create project with issues'',
            cause = Error PlainError ''Failed to create project or issues'' \<rparr>,
      [CreateProjectWithIssues
         (JObj [(''name'', JStr ''Q1 Planning''), (''teamIds'', JArr [JStr ''team-1''])])
         (JArr [JObj [(''title'', JStr ''Setup''), (''description'', JStr ''init''),
                      (''teamId'', JStr ''team-1'')]])])
   \<and> handleCreateProjectWithIssues
     (Some (example_client\<lparr> createProjectWithIssues := project_failed \<rparr>)) example_create_args =
     (Inl \<lparr> operation = ''create project with issues'',
            cause = Error PlainError ''Failed to create project or issues'' \<rparr>,
      [CreateProjectWithIssues
         (JObj [(''name'', JStr ''Q1 Planning''), (''teamIds'', JArr [JStr ''team-1''])])
         (JArr [JObj [(''title'', JStr ''Setup''), (''description'', JStr ''init''),
                      (''teamId'', JStr ''team-1'')]])])"
proof -
  have "handleCreateProjectWithIssues
     (Some (example_client\<lparr> createProjectWithIssues := batch_failed \<rparr>)) example_create_args =
     (Inl \<lparr> operation = ''create project with issues'',
            cause = Error PlainError ''Failed to create project or issues'' \<rparr>,
      [CreateProjectWithIssues
         (JObj [(''name'', JStr ''Q1 Planning''), (''teamIds'', JArr [JStr ''team-1''])])
         (JArr [JObj [(''title'', JStr ''Setup''), (''description'', JStr ''init''),
                      (''teamId'', JStr ''team-1'')]])])"
    using failed_step_raises_one_generic_error
      [OF example_create_args_valid,
       where client = "example_client\<lparr> createProjectWithIssues := batch_failed \<rparr>"
         and result = "\<lparr> projectCreate = \<lparr> pc_success = True, pc_project = created_project \<rparr>,
             issueBatchCreate = Some \<lparr> ibc_success = False, ibc_issues = [] \<rparr> \<rparr>"
         and batch = "\<lparr> ibc_success = False, ibc_issues = [] \<rparr>"]
    by (simp add: batch_failed_def handleError_def example_create_args_def)
  moreover have "handleCreateProjectWithIssues
     (Some (example_client\<lparr> createProjectWithIssues := project_failed \<rparr>)) example_create_args =
     (Inl \<lparr> operation = ''create project with issues'',
            cause = Error PlainError ''Failed to create project or issues'' \<rparr>,
      [CreateProjectWithIssues
         (JObj [(''name'', JStr ''Q1 Planning''), (''teamIds'', JArr [JStr ''team-1''])])
         (JArr [JObj [(''title'', JStr ''Setup''), (''description'', JStr ''init''),
                      (''teamId'', JStr ''team-1'')]])])"
    using failed_step_raises_one_generic_error
      [OF example_create_args_valid,
       where client = "example_client\<lparr> createProjectWithIssues := project_failed \<rparr>"
         and result = "\<lparr> projectCreate = \<lparr> pc_success = False, pc_project = created_project \<rparr>,
             issueBatchCreate = None \<rparr>"
         and batch = "\<lparr> ibc_success = False, ibc_issues = [] \<rparr>"]
    by (simp add: project_failed_def handleError_def example_create_args_def)
  ultimately show ?thesis by (rule conjI)
qed

text \<open>
  Claim C1, as the specification states it, fails. With the project \<^verbatim>\<open>proj-1\<close> created and
  the batch failed, the error record raised names neither the identifier nor the URL of
  the project.
\<close>

theorem failed_batch_error_names_no_project:
  "createProjectWithIssues (example_client\<lparr> createProjectWithIssues := batch_failed \<rparr>)
       (prop_of example_create_args ''project'') (prop_of example_create_args ''issues'') =
     Inr \<lparr> projectCreate = \<lparr> pc_success = True, pc_project = created_project \<rparr>,
           issueBatchCreate = Some \<lparr> ibc_success = False, ibc_issues = [] \<rparr> \<rparr>
   \<and> fst (handleCreateProjectWithIssues
            (Some (example_client\<lparr> createProjectWithIssues := batch_failed \<rparr>))
            example_create_args) =
     Inl \<lparr> operation = ''create project with issues'',
           cause = Error PlainError ''Failed to create project or issues'' \<rparr>
   \<and> \<not> names_project
         \<lparr> operation = ''create project with issues'',
           cause = Error PlainError ''Failed to create project or issues'' \<rparr>
         created_project
   \<and> \<not> str_includes ''Failed to create project or issues'' (project_id created_project)
   \<and> \<not> str_includes ''Failed to create project or issues'' (project_url created_project)
   \<and> \<not> str_includes ''create project with issues'' (project_id created_project)
   \<and> \<not> str_includes ''create project with issues'' (project_url created_project)"
proof -
  have a: "\<not> str_includes ''Failed to create project or issues'' ''proj-1''"
    by code_simp
  have b: "\<not> str_includes ''create project with issues'' ''proj-1''"
    by code_simp
  have c: "\<not> str_includes ''Failed to create project or issues''
              ''https://linear.app/acme/project/q1-planning''"
    by code_simp
  have d: "\<not> str_includes ''create project with issues''
              ''https://linear.app/acme/project/q1-planning''"
    by code_simp
  have e: "validateCreateProjectWithIssues example_create_args =
     Inr (JObj [(''name'', JStr ''Q1 Planning''), (''teamIds'', JArr [JStr ''team-1''])],
          JArr [JObj [(''title'', JStr ''Setup''), (''description'', JStr ''init''),
                      (''teamId'', JStr ''team-1'')]])"
    by (simp add: validateCreateProjectWithIssues_def example_create_args_def)
  have f: "fst (handleCreateProjectWithIssues
            (Some (example_client\<lparr> createProjectWithIssues := batch_failed \<rparr>))
            example_create_args) =
     Inl \<lparr> operation = ''create project with issues'',
           cause = Error PlainError ''Failed to create project or issues'' \<rparr>"
    by (simp add: handleCreateProjectWithIssues_def tryCreateProjectWithIssues_def e
        batch_failed_def createProjectWithIssues_result_def handleError_def)
  show ?thesis
    using a b c d f
    by (simp add: names_project_def created_project_def batch_failed_def)
qed


section \<open>Creating a project with its issues: the checks of the arguments\<close>

lemma create_validation_failure:
  assumes "validateCreateProjectWithIssues args = Inl error"
  shows "handleCreateProjectWithIssues (Some client) args =
     (Inl (handleError error ''create project with issues''), [])"
  using assms
  by (simp add: handleCreateProjectWithIssues_def tryCreateProjectWithIssues_def)

lemma validateIssues_first_missing:
  assumes "i < length xs"
    and "readable (xs ! i)"
    and "\<not> truthy (prop_of (xs ! i) ''teamId'')"
    and "\<forall>j<i. truthy (prop_of (xs ! j) ''teamId'')"
  shows "validateIssues n xs = Inl (Error PlainError (issue_missing_teamId (n + i)))"
  using assms
proof (induction xs arbitrary: n i)
  case Nil
  then show ?case by simp
next
  case (Cons x xs)
  show ?case
  proof (cases i)
    case 0
    with Cons.prems show ?thesis by simp
  next
    case (Suc k)
    from Cons.prems(4) Suc have head: "truthy (prop_of x ''teamId'')"
      by auto
    then have "readable x"
      by (rule truthy_prop_readable)
    moreover have "validateIssues (Suc n) xs =
        Inl (Error PlainError (issue_missing_teamId (Suc n + k)))"
    proof (rule Cons.IH)
      show "k < length xs" using Cons.prems(1) Suc by simp
      show "readable (xs ! k)" using Cons.prems(2) Suc by simp
      show "\<not> truthy (prop_of (xs ! k) ''teamId'')" using Cons.prems(3) Suc by simp
      show "\<forall>j<k. truthy (prop_of (xs ! j) ''teamId'')"
      proof (intro allI impI)
        fix j assume "j < k"
        then have "Suc j < i" using Suc by simp
        with Cons.prems(4) have "truthy (prop_of ((x # xs) ! Suc j) ''teamId'')" by blast
        then show "truthy (prop_of (xs ! j) ''teamId'')" by simp
      qed
    qed
    ultimately show ?thesis using head Suc by simp
  qed
qed

lemma validate_missing_project:
  assumes "readable args" and "prop_of args ''project'' = JUndefined"
  shows "validateCreateProjectWithIssues args =
     Inl (Error ValidationError ''missing field project'')"
  using assms by (simp add: validateCreateProjectWithIssues_def)

lemma validate_missing_issues:
  assumes "readable args" and "prop_of args ''project'' \<noteq> JUndefined"
    and "prop_of args ''issues'' = JUndefined"
  shows "validateCreateProjectWithIssues args =
     Inl (Error ValidationError ''missing field issues'')"
  using assms by (simp add: validateCreateProjectWithIssues_def)

lemma validate_teamIds:
  assumes "readable args"
    and "validateRequiredParams args [''project'', ''issues''] = Inr ()"
    and "readable (prop_of args ''project'')"
    and "\<not> (isArray (prop_of (prop_of args ''project'') ''teamIds'')
            \<and> elements (prop_of (prop_of args ''project'') ''teamIds'') \<noteq> [])"
  shows "validateCreateProjectWithIssues args = Inl (Error PlainError teamIds_required)"
  using assms(1,3,4)
  by (auto simp add: validateCreateProjectWithIssues_def assms(2) simp del: validateRequiredParams.simps)

lemma validate_issues_array:
  assumes "readable args"
    and "validateRequiredParams args [''project'', ''issues''] = Inr ()"
    and "readable (prop_of args ''project'')"
    and "isArray (prop_of (prop_of args ''project'') ''teamIds'')"
    and "elements (prop_of (prop_of args ''project'') ''teamIds'') \<noteq> []"
    and "\<not> isArray (prop_of args ''issues'')"
  shows "validateCreateProjectWithIssues args = Inl (Error PlainError issues_not_array)"
proof -
  obtain ts where "prop_of (prop_of args ''project'') ''teamIds'' = JArr ts"
    using assms(4) by (cases "prop_of (prop_of args ''project'') ''teamIds''") simp_all
  then show ?thesis
    using assms(1,3,5,6)
    by (simp add: validateCreateProjectWithIssues_def assms(2)
        del: validateRequiredParams.simps)
qed

lemma validate_issue_teamId:
  assumes "readable args"
    and "validateRequiredParams args [''project'', ''issues''] = Inr ()"
    and "readable (prop_of args ''project'')"
    and "isArray (prop_of (prop_of args ''project'') ''teamIds'')"
    and "elements (prop_of (prop_of args ''project'') ''teamIds'') \<noteq> []"
    and "prop_of args ''issues'' = JArr xs"
    and "i < length xs"
    and "readable (xs ! i)"
    and "\<not> truthy (prop_of (xs ! i) ''teamId'')"
    and "\<forall>j<i. truthy (prop_of (xs ! j) ''teamId'')"
  shows "validateCreateProjectWithIssues args =
     Inl (Error PlainError (issue_missing_teamId i))"
proof -
  obtain ts where "prop_of (prop_of args ''project'') ''teamIds'' = JArr ts"
    using assms(4) by (cases "prop_of (prop_of args ''project'') ''teamIds''") simp_all
  moreover have "validateIssues 0 xs = Inl (Error PlainError (issue_missing_teamId (0 + i)))"
    using assms(7-10) by (rule validateIssues_first_missing)
  ultimately show ?thesis
    using assms(1,3,5,6)
    by (simp add: validateCreateProjectWithIssues_def assms(2)
        del: validateRequiredParams.simps)
qed

lemma required_readable:
  assumes "validateRequiredParams args (k # required) = Inr ()"
  shows "readable args"
  using assms by (cases args) (simp_all add: readable_def)

lemma required_present:
  assumes "readable args" and "\<forall>k \<in> set required. prop_of args k \<noteq> JUndefined"
  shows "validateRequiredParams args required = Inr ()"
  using assms by (induction required) simp_all

lemma issue_missing_teamId_text:
  "str_includes (issue_missing_teamId i)
     (''Issue at index '' @ show_nat i @ '' is missing required teamId'')"
proof -
  have "issue_missing_teamId i =
      [] @ (''Issue at index '' @ show_nat i @ '' is missing required teamId'')
        @ (''.\<newline>'' @
           ''Each issue must have a teamId that matches one of the project teamIds.'')"
    by (simp add: issue_missing_teamId_def)
  then show ?thesis
    by (simp only: str_includes_middle)
qed

text \<open>
  Claim C7. Let the invocation pass the checks before the loop over the issues: the
  arguments hold a project with a non-empty array of team identifiers and an array of
  issues. Let \<open>i\<close> be the smallest index of an issue whose \<^verbatim>\<open>teamId\<close> is missing, which for
  the code is one whose \<^verbatim>\<open>teamId\<close> is falsy. Then the handler fails, with no gateway call,
  by the error whose message starts \<^verbatim>\<open>Issue at index i is missing required teamId\<close>, with
  \<open>i\<close> in decimal, counted from zero.
\<close>

theorem first_issue_without_teamId_is_reported_by_index:
  assumes "validateRequiredParams args [''project'', ''issues''] = Inr ()"
    and "readable (prop_of args ''project'')"
    and "isArray (prop_of (prop_of args ''project'') ''teamIds'')"
    and "elements (prop_of (prop_of args ''project'') ''teamIds'') \<noteq> []"
    and "prop_of args ''issues'' = JArr xs"
    and "i < length xs"
    and "readable (xs ! i)"
    and "\<not> truthy (prop_of (xs ! i) ''teamId'')"
    and "\<forall>j<i. truthy (prop_of (xs ! j) ''teamId'')"
  shows "handleCreateProjectWithIssues (Some client) args =
     (Inl (handleError (Error PlainError (issue_missing_teamId i))
             ''create project with issues''), [])
   \<and> issue_missing_teamId i =
       ''Issue at index '' @ show_nat i @ '' is missing required teamId.\<newline>'' @
       ''Each issue must have a teamId that matches one of the project teamIds.''
   \<and> str_includes (issue_missing_teamId i)
       (''Issue at index '' @ show_nat i @ '' is missing required teamId'')"
proof -
  have "readable args"
    using assms(1) by (rule required_readable)
  then have "validateCreateProjectWithIssues args =
      Inl (Error PlainError (issue_missing_teamId i))"
    using assms by (rule validate_issue_teamId)
  then have "handleCreateProjectWithIssues (Some client) args =
     (Inl (handleError (Error PlainError (issue_missing_teamId i))
             ''create project with issues''), [])"
    by (rule create_validation_failure)
  then show ?thesis
    using issue_missing_teamId_text [of i] by (simp add: issue_missing_teamId_def)
qed


theorem first_issue_without_teamId_is_reported_by_index_witness:
  "handleCreateProjectWithIssues (Some example_client) third_issue_without_teamId =
     (Inl \<lparr> operation = ''create project with issues'',
            cause = Error PlainError
              (''Issue at index 2 is missing required teamId.\<newline>'' @
               ''Each issue must have a teamId that matches one of the project teamIds.'') \<rparr>,
      [])
   \<and> str_includes (issue_missing_teamId 2) ''Issue at index 2 is missing required teamId''"
proof -
  let ?xs = "[JObj [(''title'', JStr ''Setup''), (''teamId'', JStr ''team-1'')],
              JObj [(''title'', JStr ''Plan''), (''teamId'', JStr ''team-1'')],
              JObj [(''title'', JStr ''Review'')],
              JObj [(''title'', JStr ''Ship'')]]"
  have two: "show_nat 2 = ''2''"
    by (simp add: show_nat.simps digit_def)
  have earlier: "\<forall>j<2. truthy (prop_of (?xs ! j) ''teamId'')"
  proof (intro allI impI)
    fix j :: nat assume "j < 2"
    then have "j = 0 \<or> j = 1" by arith
    then show "truthy (prop_of (?xs ! j) ''teamId'')" by auto
  qed
  have "handleCreateProjectWithIssues (Some example_client) third_issue_without_teamId =
     (Inl (handleError (Error PlainError (issue_missing_teamId 2))
             ''create project with issues''), [])
   \<and> issue_missing_teamId 2 =
       ''Issue at index '' @ show_nat 2 @ '' is missing required teamId.\<newline>'' @
       ''Each issue must have a teamId that matches one of the project teamIds.''
   \<and> str_includes (issue_missing_teamId 2)
       (''Issue at index '' @ show_nat 2 @ '' is missing required teamId'')"
  proof (rule first_issue_without_teamId_is_reported_by_index [where xs = ?xs])
    show "validateRequiredParams third_issue_without_teamId [''project'', ''issues''] = Inr ()"
      by (simp add: third_issue_without_teamId_def)
    show "readable (prop_of third_issue_without_teamId ''project'')"
      by (simp add: third_issue_without_teamId_def readable_def)
    show "isArray (prop_of (prop_of third_issue_without_teamId ''project'') ''teamIds'')"
      by (simp add: third_issue_without_teamId_def)
    show "elements (prop_of (prop_of third_issue_without_teamId ''project'') ''teamIds'') \<noteq> []"
      by (simp add: third_issue_without_teamId_def)
    show "prop_of third_issue_without_teamId ''issues'' = JArr ?xs"
      by (simp add: third_issue_without_teamId_def)
    show "2 < length ?xs" by simp
    show "readable (?xs ! 2)" by (simp add: readable_def)
    show "\<not> truthy (prop_of (?xs ! 2) ''teamId'')" by simp
    show "\<forall>j<2. truthy (prop_of (?xs ! j) ''teamId'')" by (rule earlier)
  qed
  then have outcome: "handleCreateProjectWithIssues (Some example_client)
        third_issue_without_teamId =
     (Inl (handleError (Error PlainError (issue_missing_teamId 2))
             ''create project with issues''), [])"
    and wording: "issue_missing_teamId 2 =
       ''Issue at index '' @ show_nat 2 @ '' is missing required teamId.\<newline>'' @
       ''Each issue must have a teamId that matches one of the project teamIds.''"
    and part: "str_includes (issue_missing_teamId 2)
       (''Issue at index '' @ show_nat 2 @ '' is missing required teamId'')"
    by blast+
  have "handleCreateProjectWithIssues (Some example_client) third_issue_without_teamId =
     (Inl \<lparr> operation = ''create project with issues'',
            cause = Error PlainError
              (''Issue at index 2 is missing required teamId.\<newline>'' @
               ''Each issue must have a teamId that matches one of the project teamIds.'') \<rparr>,
      [])"
    unfolding outcome wording two by (simp add: handleError_def)
  moreover have "str_includes (issue_missing_teamId 2)
      ''Issue at index 2 is missing required teamId''"
    using part unfolding two by simp
  ultimately show ?thesis by (rule conjI)
qed

text \<open>
  Claim C5, as the code has it. With a session, every error raised by the checks of the
  arguments, the runtime's TypeError for a \<^verbatim>\<open>null\<close> project or issue among them, ends the
  invocation with no gateway call made. Where \<^verbatim>\<open>project\<close> or \<^verbatim>\<open>issues\<close> is missing, the error
  is the ValidationError of \<^verbatim>\<open>validateRequiredParams\<close>, which names the field. Where one of
  the handler's own rules is violated (the team identifiers of the project are not a
  non-empty array, the issues are not an array, an issue has no \<^verbatim>\<open>teamId\<close>), the error is
  the plain \<^verbatim>\<open>Error\<close> of that check, whose message names the field. The same holds for the
  required \<^verbatim>\<open>id\<close> of the project lookup.
\<close>

theorem validation_failures_make_no_gateway_call:
  assumes "readable args"
  shows "(validateCreateProjectWithIssues args = Inl error \<longrightarrow>
      handleCreateProjectWithIssues (Some client) args =
        (Inl (handleError error ''create project with issues''), []))
   \<and> (prop_of args ''project'' = JUndefined \<longrightarrow>
      handleCreateProjectWithIssues (Some client) args =
        (Inl (handleError (Error ValidationError ''missing field project'')
                ''create project with issues''), []))
   \<and> (prop_of args ''project'' \<noteq> JUndefined \<and> prop_of args ''issues'' = JUndefined \<longrightarrow>
      handleCreateProjectWithIssues (Some client) args =
        (Inl (handleError (Error ValidationError ''missing field issues'')
                ''create project with issues''), []))
   \<and> (validateRequiredParams args [''project'', ''issues''] = Inr ()
       \<and> readable (prop_of args ''project'')
       \<and> \<not> (isArray (prop_of (prop_of args ''project'') ''teamIds'')
              \<and> elements (prop_of (prop_of args ''project'') ''teamIds'') \<noteq> []) \<longrightarrow>
      handleCreateProjectWithIssues (Some client) args =
        (Inl (handleError (Error PlainError teamIds_required)
                ''create project with issues''), []))
   \<and> (validateRequiredParams args [''project'', ''issues''] = Inr ()
       \<and> readable (prop_of args ''project'')
       \<and> isArray (prop_of (prop_of args ''project'') ''teamIds'')
       \<and> elements (prop_of (prop_of args ''project'') ''teamIds'') \<noteq> []
       \<and> \<not> isArray (prop_of args ''issues'') \<longrightarrow>
      handleCreateProjectWithIssues (Some client) args =
        (Inl (handleError (Error PlainError issues_not_array)
                ''create project with issues''), []))
   \<and> (validateRequiredParams args [''project'', ''issues''] = Inr ()
       \<and> readable (prop_of args ''project'')
       \<and> isArray (prop_of (prop_of args ''project'') ''teamIds'')
       \<and> elements (prop_of (prop_of args ''project'') ''teamIds'') \<noteq> []
       \<and> prop_of args ''issues'' = JArr xs
       \<and> i < length xs \<and> readable (xs ! i) \<and> \<not> truthy (prop_of (xs ! i) ''teamId'')
       \<and> (\<forall>j<i. truthy (prop_of (xs ! j) ''teamId'')) \<longrightarrow>
      handleCreateProjectWithIssues (Some client) args =
        (Inl (handleError (Error PlainError (issue_missing_teamId i))
                ''create project with issues''), []))
   \<and> (prop_of args ''id'' = JUndefined \<longrightarrow>
      handleGetProject num_str (Some client) args =
        (Inl (handleError (Error ValidationError ''missing field id'')
                ''get project info''), []))
   \<and> str_includes teamIds_required ''teamIds''
   \<and> str_includes issues_not_array ''issues''
   \<and> str_includes (issue_missing_teamId i) ''teamId''"
proof -
  note fail = create_validation_failure [of args _ client]
  have any: "validateCreateProjectWithIssues args = Inl error \<longrightarrow>
      handleCreateProjectWithIssues (Some client) args =
        (Inl (handleError error ''create project with issues''), [])"
    using fail by blast
  have project: "prop_of args ''project'' = JUndefined \<longrightarrow>
      handleCreateProjectWithIssues (Some client) args =
        (Inl (handleError (Error ValidationError ''missing field project'')
                ''create project with issues''), [])"
    using fail validate_missing_project [OF assms] by blast
  have issues: "prop_of args ''project'' \<noteq> JUndefined \<and> prop_of args ''issues'' = JUndefined \<longrightarrow>
      handleCreateProjectWithIssues (Some client) args =
        (Inl (handleError (Error ValidationError ''missing field issues'')
                ''create project with issues''), [])"
    using fail validate_missing_issues [OF assms] by blast
  have teamIds: "validateRequiredParams args [''project'', ''issues''] = Inr ()
       \<and> readable (prop_of args ''project'')
       \<and> \<not> (isArray (prop_of (prop_of args ''project'') ''teamIds'')
              \<and> elements (prop_of (prop_of args ''project'') ''teamIds'') \<noteq> []) \<longrightarrow>
      handleCreateProjectWithIssues (Some client) args =
        (Inl (handleError (Error PlainError teamIds_required)
                ''create project with issues''), [])"
    using fail validate_teamIds [OF assms] by blast
  have array: "validateRequiredParams args [''project'', ''issues''] = Inr ()
       \<and> readable (prop_of args ''project'')
       \<and> isArray (prop_of (prop_of args ''project'') ''teamIds'')
       \<and> elements (prop_of (prop_of args ''project'') ''teamIds'') \<noteq> []
       \<and> \<not> isArray (prop_of args ''issues'') \<longrightarrow>
      handleCreateProjectWithIssues (Some client) args =
        (Inl (handleError (Error PlainError issues_not_array)
                ''create project with issues''), [])"
    using fail validate_issues_array [OF assms] by blast
  have teamId: "validateRequiredParams args [''project'', ''issues''] = Inr ()
       \<and> readable (prop_of args ''project'')
       \<and> isArray (prop_of (prop_of args ''project'') ''teamIds'')
       \<and> elements (prop_of (prop_of args ''project'') ''teamIds'') \<noteq> []
       \<and> prop_of args ''issues'' = JArr xs
       \<and> i < length xs \<and> readable (xs ! i) \<and> \<not> truthy (prop_of (xs ! i) ''teamId'')
       \<and> (\<forall>j<i. truthy (prop_of (xs ! j) ''teamId'')) \<longrightarrow>
      handleCreateProjectWithIssues (Some client) args =
        (Inl (handleError (Error PlainError (issue_missing_teamId i))
                ''create project with issues''), [])"
    using fail validate_issue_teamId [OF assms, of xs i] by blast
  have ident: "prop_of args ''id'' = JUndefined \<longrightarrow>
      handleGetProject num_str (Some client) args =
        (Inl (handleError (Error ValidationError ''missing field id'')
                ''get project info''), [])"
    using assms by (simp add: handleGetProject_def tryGetProject_def)
  have m1: "str_includes teamIds_required ''teamIds''"
    unfolding teamIds_required_def by code_simp
  have m2: "str_includes issues_not_array ''issues''"
    unfolding issues_not_array_def by code_simp
  have "issue_missing_teamId i =
      (''Issue at index '' @ show_nat i @ '' is missing required '') @ ''teamId''
        @ (''.\<newline>'' @
           ''Each issue must have a teamId that matches one of the project teamIds.'')"
    by (simp add: issue_missing_teamId_def)
  then have m3: "str_includes (issue_missing_teamId i) ''teamId''"
    by (simp only: str_includes_middle)
  from any project issues teamIds array teamId ident m1 m2 m3 show ?thesis
    by (intro conjI)
qed

theorem validation_failures_make_no_gateway_call_witness:
  "handleCreateProjectWithIssues (Some example_client) (JObj []) =
     (Inl \<lparr> operation = ''create project with issues'',
            cause = Error ValidationError ''missing field project'' \<rparr>, [])
   \<and> handleCreateProjectWithIssues (Some example_client)
       (JObj [(''project'', JObj [(''teamIds'', JArr [JStr ''team-1''])])]) =
     (Inl \<lparr> operation = ''create project with issues'',
            cause = Error ValidationError ''missing field issues'' \<rparr>, [])
   \<and> handleCreateProjectWithIssues (Some example_client) teamIds_not_an_array =
     (Inl \<lparr> operation = ''create project with issues'',
            cause = Error PlainError teamIds_required \<rparr>, [])
   \<and> handleCreateProjectWithIssues (Some example_client) issues_not_an_array =
     (Inl \<lparr> operation = ''create project with issues'',
            cause = Error PlainError issues_not_array \<rparr>, [])
   \<and> handleCreateProjectWithIssues (Some example_client) third_issue_without_teamId =
     (Inl \<lparr> operation = ''create project with issues'',
            cause = Error PlainError (issue_missing_teamId 2) \<rparr>, [])
   \<and> handleGetProject example_number_text (Some example_client) (JObj []) =
     (Inl \<lparr> operation = ''get project info'',
            cause = Error ValidationError ''missing field id'' \<rparr>, [])
   \<and> str_includes (issue_missing_teamId 2) ''teamId''"
proof -
  let ?xs = "[JObj [(''title'', JStr ''Setup''), (''teamId'', JStr ''team-1'')],
              JObj [(''title'', JStr ''Plan''), (''teamId'', JStr ''team-1'')],
              JObj [(''title'', JStr ''Review'')],
              JObj [(''title'', JStr ''Ship'')]]"
  have r1: "readable (JObj [])"
    by (simp add: readable_def)
  have r2: "readable (JObj [(''project'', JObj [(''teamIds'', JArr [JStr ''team-1''])])])"
    by (simp add: readable_def)
  have r3: "readable teamIds_not_an_array"
    by (simp add: readable_def teamIds_not_an_array_def)
  have r4: "readable issues_not_an_array"
    by (simp add: readable_def issues_not_an_array_def)
  have r5: "readable third_issue_without_teamId"
    by (simp add: readable_def third_issue_without_teamId_def)
  have earlier: "\<forall>j<2. truthy (prop_of (?xs ! j) ''teamId'')"
  proof (intro allI impI)
    fix j :: nat assume "j < 2"
    then have "j = 0 \<or> j = 1" by arith
    then show "truthy (prop_of (?xs ! j) ''teamId'')" by auto
  qed
  have c1: "handleCreateProjectWithIssues (Some example_client) (JObj []) =
     (Inl \<lparr> operation = ''create project with issues'',
            cause = Error ValidationError ''missing field project'' \<rparr>, [])"
    using validation_failures_make_no_gateway_call
      [OF r1, where client = example_client and xs = "[]" and i = 0
          and num_str = example_number_text]
    by (simp add: handleError_def)
  have c6: "handleGetProject example_number_text (Some example_client) (JObj []) =
     (Inl \<lparr> operation = ''get project info'',
            cause = Error ValidationError ''missing field id'' \<rparr>, [])"
    using validation_failures_make_no_gateway_call
      [OF r1, where client = example_client and xs = "[]" and i = 0
          and num_str = example_number_text]
    by (simp add: handleError_def)
  have c2: "handleCreateProjectWithIssues (Some example_client)
       (JObj [(''project'', JObj [(''teamIds'', JArr [JStr ''team-1''])])]) =
     (Inl \<lparr> operation = ''create project with issues'',
            cause = Error ValidationError ''missing field issues'' \<rparr>, [])"
    using validation_failures_make_no_gateway_call
      [OF r2, where client = example_client and xs = "[]" and i = 0
          and num_str = example_number_text]
    by (simp add: handleError_def)
  have c3: "handleCreateProjectWithIssues (Some example_client) teamIds_not_an_array =
     (Inl \<lparr> operation = ''create project with issues'',
            cause = Error PlainError teamIds_required \<rparr>, [])"
    using validation_failures_make_no_gateway_call
      [OF r3, where client = example_client and xs = "[]" and i = 0
          and num_str = example_number_text]
    by (simp add: handleError_def teamIds_not_an_array_def readable_def)
  have c4: "handleCreateProjectWithIssues (Some example_client) issues_not_an_array =
     (Inl \<lparr> operation = ''create project with issues'',
            cause = Error PlainError issues_not_array \<rparr>, [])"
    using validation_failures_make_no_gateway_call
      [OF r4, where client = example_client and xs = "[]" and i = 0
          and num_str = example_number_text]
    by (simp add: handleError_def issues_not_an_array_def readable_def)
  have c5: "handleCreateProjectWithIssues (Some example_client) third_issue_without_teamId =
     (Inl \<lparr> operation = ''create project with issues'',
            cause = Error PlainError (issue_missing_teamId 2) \<rparr>, [])
     \<and> str_includes (issue_missing_teamId 2) ''teamId''"
    using validation_failures_make_no_gateway_call
      [OF r5, where client = example_client and xs = ?xs and i = 2
          and num_str = example_number_text] earlier
    by (simp add: handleError_def third_issue_without_teamId_def readable_def)
  from c1 c2 c3 c4 c5 c6 show ?thesis
    by (intro conjI) simp_all
qed


text \<open>
  Claim C5, as the specification states it, fails in two ways. The schema requires a
  \<^verbatim>\<open>name\<close> of the project and a \<^verbatim>\<open>title\<close> of each issue, and the handler checks neither: an
  invocation that lacks both raises nothing and makes its gateway call. And the error of
  a violated structural rule, here team identifiers that are no array, is a plain
  \<^verbatim>\<open>Error\<close>, not a ValidationError.
\<close>

theorem unchecked_fields_reach_the_gateway:
  "''name'' \<in> set project_required
   \<and> prop_of (prop_of name_and_titles_missing ''project'') ''name'' = JUndefined
   \<and> ''title'' \<in> set issue_required
   \<and> prop_of (elements (prop_of name_and_titles_missing ''issues'') ! 0) ''title'' = JUndefined
   \<and> handleCreateProjectWithIssues (Some example_client) name_and_titles_missing =
     (Inr (TextResponse
        (''Successfully created project with issues\<newline>'' @
         ''Project: Q1 Planning\<newline>'' @
         ''Project URL: https://linear.app/acme/project/q1-planning\<newline>'' @
         ''Issues created: 1\<newline>'' @
         ''- ACME-1: Setup (https://linear.app/acme/issue/ACME-1)'')),
      [CreateProjectWithIssues
         (JObj [(''teamIds'', JArr [JStr ''team-1''])])
         (JArr [JObj [(''teamId'', JStr ''team-1'')]])])
   \<and> handleCreateProjectWithIssues (Some example_client) teamIds_not_an_array =
     (Inl \<lparr> operation = ''create project with issues'',
            cause = Error PlainError teamIds_required \<rparr>, [])
   \<and> PlainError \<noteq> ValidationError"
proof -
  have one: "show_nat (Suc 0) = ''1''"
    by (simp add: show_nat.simps digit_def)
  have valid: "validateCreateProjectWithIssues name_and_titles_missing =
     Inr (JObj [(''teamIds'', JArr [JStr ''team-1''])],
          JArr [JObj [(''teamId'', JStr ''team-1'')]])"
    by (simp add: validateCreateProjectWithIssues_def name_and_titles_missing_def)
  have reached: "handleCreateProjectWithIssues (Some example_client) name_and_titles_missing =
     (Inr (TextResponse
        (''Successfully created project with issues\<newline>'' @
         ''Project: Q1 Planning\<newline>'' @
         ''Project URL: https://linear.app/acme/project/q1-planning\<newline>'' @
         ''Issues created: 1\<newline>'' @
         ''- ACME-1: Setup (https://linear.app/acme/issue/ACME-1)'')),
      [CreateProjectWithIssues
         (JObj [(''teamIds'', JArr [JStr ''team-1''])])
         (JArr [JObj [(''teamId'', JStr ''team-1'')]])])"
    by (simp add: handleCreateProjectWithIssues_def tryCreateProjectWithIssues_def valid
        example_client_def created_all_def createProjectWithIssues_result_def Let_def
        created_project_def created_issue_def issue_line_def createResponse_def one)
  have invalid: "validateCreateProjectWithIssues teamIds_not_an_array =
     Inl (Error PlainError teamIds_required)"
    by (simp add: validateCreateProjectWithIssues_def teamIds_not_an_array_def)
  have plain: "handleCreateProjectWithIssues (Some example_client) teamIds_not_an_array =
     (Inl \<lparr> operation = ''create project with issues'',
            cause = Error PlainError teamIds_required \<rparr>, [])"
    by (simp add: handleCreateProjectWithIssues_def tryCreateProjectWithIssues_def invalid
        handleError_def)
  have missing: "prop_of (prop_of name_and_titles_missing ''project'') ''name'' = JUndefined"
    "prop_of (elements (prop_of name_and_titles_missing ''issues'') ! 0) ''title'' = JUndefined"
    by (simp_all add: name_and_titles_missing_def)
  have required: "''name'' \<in> set project_required" "''title'' \<in> set issue_required"
    by (simp_all add: project_required_def issue_required_def)
  from required missing reached plain show ?thesis
    by (intro conjI) simp_all
qed


section \<open>Getting a project that does not exist\<close>

text \<open>
  Claim C3. Let the lookup of the project throw an error that the handler recognises as
  one for a missing entity: an instance of \<^verbatim>\<open>Error\<close> whose message contains
  \<^verbatim>\<open>Entity not found\<close> or \<^verbatim>\<open>Could not find referenced Project\<close>. Then the handler raises
  nothing and returns the text \<^verbatim>\<open>Project with ID "<id>" does not exist\<close>, where \<^verbatim>\<open><id>\<close>
  is the given identifier as a template literal shows it, after the one gateway call.
\<close>

theorem missing_project_is_a_text_response:
  assumes "validateRequiredParams args [''id''] = Inr ()"
    and "to_string num_str (prop_of args ''id'') = Inr shown"
    and "getProject client (prop_of args ''id'') = Inl error"
    and "instanceof_Error error"
    and "str_includes (message error) ''Entity not found''
         \<or> str_includes (message error) ''Could not find referenced Project''"
  shows \<open>handleGetProject num_str (Some client) args =
     (Inr (TextResponse (''Project with ID "'' @ shown @ ''" does not exist'')),
      [GetProject (prop_of args ''id'')])\<close>
proof -
  have args: "readable args"
    using assms(1) by (rule required_readable)
  have "lookupProject num_str client args
          (if truthy (prop_of args ''includeIssues'') then prop_of args ''includeIssues''
           else JBool False) =
      (Inl error, [GetProject (prop_of args ''id'')])"
    using args assms(3) by (simp add: lookupProject_def)
  moreover have "entity_not_found error"
    using assms(4,5) by (simp add: entity_not_found_def)
  ultimately show ?thesis
    using args assms(2)
    by (simp add: handleGetProject_def tryGetProject_def does_not_exist_def createResponse_def
        assms(1) del: validateRequiredParams.simps)
qed

theorem missing_project_is_a_text_response_witness:
  \<open>handleGetProject example_number_text
     (Some (example_client\<lparr> getProject := project_missing \<rparr>)) lookup_args =
     (Inr (TextResponse ''Project with ID "proj-404" does not exist''),
      [GetProject (JStr ''proj-404'')])\<close>
proof -
  have "str_includes (message (Error PlainError ''Entity not found: Project''))
          ''Entity not found''"
    by (simp add: str_includes_def)
  then show ?thesis
    using missing_project_is_a_text_response
      [where args = lookup_args and shown = "''proj-404''"
          and client = "example_client\<lparr> getProject := project_missing \<rparr>"
          and error = "Error PlainError ''Entity not found: Project''"
          and num_str = example_number_text]
    by (simp add: lookup_args_def readable_def project_missing_def)
qed


section \<open>Searching projects\<close>

lemma name_or_teamIds_text:
  "str_includes name_or_teamIds ''name'' \<and> str_includes name_or_teamIds ''teamIds''"
  unfolding name_or_teamIds_def by code_simp

lemma requireNameOrTeamIds_iff:
  assumes "readable args"
  shows "requireNameOrTeamIds args =
     (if truthy (prop_of args ''name'')
         \<or> (isArray (prop_of args ''teamIds'') \<and> elements (prop_of args ''teamIds'') \<noteq> [])
      then Inr () else Inl (Error PlainError name_or_teamIds))"
  using assms
  by (cases "prop_of args ''teamIds''") (simp_all add: requireNameOrTeamIds_def)

lemma request_readable:
  assumes "searchProjects_request num_str str_positive args = Inr request"
  shows "readable args"
  using assms
  by (cases args)
     (simp_all add: readable_def searchProjects_request_def requireNameOrTeamIds_def)

lemma request_includeArchived:
  assumes "searchProjects_request num_str str_positive args = Inr (query, first, includeArchived)"
  shows "truthy includeArchived = truthy (prop_of args ''includeArchived'')"
proof -
  have "readable args"
    using assms by (rule request_readable)
  then show ?thesis
    using assms
    by (auto simp add: searchProjects_request_def and_then_def Let_def
        split: sum.splits if_splits)
qed

lemma search_after_request:
  assumes "searchProjects_request num_str str_positive args = Inr (query, first, includeArchived)"
    and "searchProjects client query first = Inr result"
  shows "handleSearchProjects num_str str_positive (Some client) args =
     catch_handleError ''search projects''
       (searchProjects_result num_str args includeArchived result, [SearchProjects query first])"
  using assms by (simp add: handleSearchProjects_def trySearchProjects_def)

lemma buildFilter_teamIds_array:
  assumes "readable args"
    and "prop_of args ''teamIds'' = JUndefined \<or> isArray (prop_of args ''teamIds'')"
  shows "buildFilter num_str str_positive args =
     Inr (JObj
       ((if truthy (prop_of args ''name'')
         then [(''name'', JObj [(''contains'', prop_of args ''name'')])] else []) @
        (if elements (prop_of args ''teamIds'') \<noteq> []
         then [(''team'', JObj [(''id'', JObj [(''in'', prop_of args ''teamIds'')])])]
         else [])))"
  using assms
  by (cases "prop_of args ''teamIds''") (auto simp add: buildFilter_def)

lemma request_first:
  assumes "searchProjects_request num_str str_positive args = Inr (query, first, includeArchived)"
  shows "first = (if truthy (prop_of args ''first'') then prop_of args ''first'' else JNum (Finite 50))"
proof -
  have "readable args"
    using assms by (rule request_readable)
  then show ?thesis
    using assms
    by (auto simp add: searchProjects_request_def and_then_def Let_def
        split: sum.splits if_splits)
qed

lemma archived_iff:
  "archived project \<longleftrightarrow> prop_of (JObj project) ''state'' \<in> set archived_labels"
  by (cases "prop_of (JObj project) ''state''")
     (auto simp add: archived_def archived_labels_def Let_def)

text \<open>
  Claim C8. With a session and an argument object, a search that gives neither a name
  (a truthy \<^verbatim>\<open>name\<close>) nor a non-empty array of team identifiers fails, with no gateway
  call, by the error whose message names both alternatives. Where one of the two is
  given, the check passes.
\<close>

theorem search_requires_name_or_teamIds:
  assumes "readable args"
  shows "(\<not> truthy (prop_of args ''name'')
       \<and> \<not> (isArray (prop_of args ''teamIds'') \<and> elements (prop_of args ''teamIds'') \<noteq> []) \<longrightarrow>
      handleSearchProjects num_str str_positive (Some client) args =
        (Inl (handleError
                (Error PlainError
                   ''At least a project name or teamIds must be provided for search'')
                ''search projects''), []))
   \<and> (truthy (prop_of args ''name'')
       \<or> (isArray (prop_of args ''teamIds'') \<and> elements (prop_of args ''teamIds'') \<noteq> []) \<longrightarrow>
      requireNameOrTeamIds args = Inr ())
   \<and> str_includes ''At least a project name or teamIds must be provided for search'' ''name''
   \<and> str_includes ''At least a project name or teamIds must be provided for search''
        ''teamIds''"
proof -
  have "\<not> truthy (prop_of args ''name'')
       \<and> \<not> (isArray (prop_of args ''teamIds'') \<and> elements (prop_of args ''teamIds'') \<noteq> []) \<longrightarrow>
      handleSearchProjects num_str str_positive (Some client) args =
        (Inl (handleError (Error PlainError name_or_teamIds) ''search projects''), [])"
    using requireNameOrTeamIds_iff [OF assms]
    by (simp add: handleSearchProjects_def trySearchProjects_def searchProjects_request_def)
  moreover have "truthy (prop_of args ''name'')
       \<or> (isArray (prop_of args ''teamIds'') \<and> elements (prop_of args ''teamIds'') \<noteq> []) \<longrightarrow>
      requireNameOrTeamIds args = Inr ()"
    using requireNameOrTeamIds_iff [OF assms] by simp
  ultimately show ?thesis
    using name_or_teamIds_text by (simp add: name_or_teamIds_def)
qed

theorem search_requires_name_or_teamIds_witness:
  "handleSearchProjects example_number_text never_gt0 (Some example_client) (JObj [(''teamIds'', JArr [])]) =
     (Inl \<lparr> operation = ''search projects'',
            cause = Error PlainError
              ''At least a project name or teamIds must be provided for search'' \<rparr>, [])
   \<and> requireNameOrTeamIds search_by_name = Inr ()
   \<and> requireNameOrTeamIds search_by_teamIds = Inr ()"
proof -
  have r1: "readable (JObj [(''teamIds'', JArr [])])"
    by (simp add: readable_def)
  have r2: "readable search_by_name"
    by (simp add: readable_def search_by_name_def)
  have r3: "readable search_by_teamIds"
    by (simp add: readable_def search_by_teamIds_def)
  have "handleSearchProjects example_number_text never_gt0 (Some example_client) (JObj [(''teamIds'', JArr [])]) =
     (Inl \<lparr> operation = ''search projects'',
            cause = Error PlainError
              ''At least a project name or teamIds must be provided for search'' \<rparr>, [])"
    using search_requires_name_or_teamIds
      [OF r1, where num_str = example_number_text and str_positive = never_gt0
         and client = example_client]
    by (simp add: handleError_def)
  moreover have "requireNameOrTeamIds search_by_name = Inr ()"
    using search_requires_name_or_teamIds
      [OF r2, where num_str = example_number_text and str_positive = never_gt0
         and client = example_client]
    by (simp add: search_by_name_def)
  moreover have "requireNameOrTeamIds search_by_teamIds = Inr ()"
    using search_requires_name_or_teamIds
      [OF r3, where num_str = example_number_text and str_positive = never_gt0
         and client = example_client]
    by (simp add: search_by_teamIds_def)
  ultimately show ?thesis by simp
qed


lemma example_request:
  "searchProjects_request num_str str_positive search_by_name =
     Inr (JObj [(''name'', JObj [(''contains'', JStr ''Roadmap'')])], JNum (Finite 50), JBool False)"
  by (simp add: searchProjects_request_def requireNameOrTeamIds_def buildFilter_def
      search_by_name_def)

lemma example_request_with_archived:
  "searchProjects_request num_str str_positive search_with_archived =
     Inr (JObj [(''name'', JObj [(''contains'', JStr ''Roadmap'')])], JNum (Finite 50), JBool True)"
  by (simp add: searchProjects_request_def requireNameOrTeamIds_def buildFilter_def
      search_with_archived_def)

lemma filterArchived_projects:
  assumes "result_projects result = Some connection"
  shows "result_projects (filterArchived includeArchived result) =
     Some (connection\<lparr> nodes :=
       (if truthy includeArchived then nodes connection
        else filter (\<lambda>project. prop_of (JObj project) ''state'' \<notin> set archived_labels)
               (nodes connection)) \<rparr>)"
  using assms by (simp add: filterArchived_def archived_iff)

text \<open>
  Claim C6. Where the search returns a list of projects that is empty after the
  client-side filter, the handler raises nothing and returns the text
  \<^verbatim>\<open>No projects found matching the search criteria\<close>, followed by the searched name in
  single quotes where a name was given.
\<close>

theorem empty_search_is_a_text_response:
  assumes "searchProjects_request num_str str_positive args = Inr (query, first, includeArchived)"
    and "searchProjects client query first = Inr result"
    and "result_projects result = Some connection"
    and "(if truthy (prop_of args ''includeArchived'') then nodes connection
          else filter (\<lambda>project. prop_of (JObj project) ''state'' \<notin> set archived_labels)
                 (nodes connection)) = []"
    and "to_string num_str (prop_of args ''name'') = Inr shown"
  shows "handleSearchProjects num_str str_positive (Some client) args =
     (Inr (TextResponse
        (''No projects found matching the search criteria '' @
         (if truthy (prop_of args ''name'') then [CHR 0x27] @ shown @ [CHR 0x27] else []))),
      [SearchProjects query first])"
proof -
  have args: "readable args"
    using assms(1) by (rule request_readable)
  have flag: "truthy includeArchived = truthy (prop_of args ''includeArchived'')"
    using assms(1) by (rule request_includeArchived)
  have "result_projects (filterArchived includeArchived result) =
      Some (connection\<lparr> nodes := [] \<rparr>)"
    using filterArchived_projects [OF assms(3), of includeArchived] assms(4) flag by simp
  then have "searchProjects_result num_str args includeArchived result =
      Inr (createResponse (no_projects_found
        (if truthy (prop_of args ''name'') then [CHR 0x27] @ shown @ [CHR 0x27] else [])))"
    using args assms(5) by (simp add: searchProjects_result_def Let_def)
  then show ?thesis
    using search_after_request [OF assms(1,2)]
    by (simp add: createResponse_def no_projects_found_def)
qed

theorem empty_search_is_a_text_response_witness:
  "handleSearchProjects example_number_text never_gt0
     (Some (example_client\<lparr> searchProjects := only_archived_found \<rparr>)) search_by_name =
     (Inr (TextResponse
        (''No projects found matching the search criteria '' @ [CHR 0x27] @ ''Roadmap''
           @ [CHR 0x27])),
      [SearchProjects (JObj [(''name'', JObj [(''contains'', JStr ''Roadmap'')])])
         (JNum (Finite 50))])"
  using empty_search_is_a_text_response
    [OF example_request [where num_str = example_number_text and str_positive = never_gt0],
     where client = "example_client\<lparr> searchProjects := only_archived_found \<rparr>"
       and result = "\<lparr> result_projects =
             Some \<lparr> nodes = [[(''id'', JStr ''p2''), (''state'', JStr ''Archived'')]] \<rparr> \<rparr>"
       and connection = "\<lparr> nodes = [[(''id'', JStr ''p2''), (''state'', JStr ''Archived'')]] \<rparr>"
       and shown = "''Roadmap''"]
  by (simp add: only_archived_found_def search_by_name_def archived_labels_def)

text \<open>
  Claim C2. Let the search return a list of projects. Where the caller leaves
  \<^verbatim>\<open>includeArchived\<close> unset or false (or gives any falsy value), the projects returned are
  those of the gateway whose \<^verbatim>\<open>state\<close> is none of \<^verbatim>\<open>Archived\<close>, \<^verbatim>\<open>Canceled\<close>, \<^verbatim>\<open>Completed\<close>, in
  the order of the gateway: every project with such a state is removed, and no other.
  Where the caller gives \<^verbatim>\<open>true\<close> (or any truthy value), the projects returned are those of
  the gateway. A text response, which the handler gives for an empty list, returns none.
\<close>

theorem archived_projects_are_filtered_unless_included:
  assumes "searchProjects_request num_str str_positive args = Inr (query, first, includeArchived)"
    and "searchProjects client query first = Inr result"
    and "result_projects result = Some connection"
    and "to_string num_str (prop_of args ''name'') = Inr shown"
  shows "\<exists>response.
     handleSearchProjects num_str str_positive (Some client) args =
       (Inr response, [SearchProjects query first])
     \<and> (\<not> truthy (prop_of args ''includeArchived'') \<longrightarrow>
          returned_projects response =
            filter (\<lambda>project. prop_of (JObj project) ''state'' \<notin> set archived_labels)
              (nodes connection)
          \<and> (\<forall>project \<in> set (returned_projects response).
                prop_of (JObj project) ''state'' \<notin> set archived_labels))
     \<and> (truthy (prop_of args ''includeArchived'') \<longrightarrow>
          returned_projects response = nodes connection)"
proof -
  let ?kept = "if truthy (prop_of args ''includeArchived'') then nodes connection
     else filter (\<lambda>project. prop_of (JObj project) ''state'' \<notin> set archived_labels)
            (nodes connection)"
  have args: "readable args"
    using assms(1) by (rule request_readable)
  have flag: "truthy includeArchived = truthy (prop_of args ''includeArchived'')"
    using assms(1) by (rule request_includeArchived)
  have projects: "result_projects (filterArchived includeArchived result) =
      Some (connection\<lparr> nodes := ?kept \<rparr>)"
    using filterArchived_projects [OF assms(3), of includeArchived] flag by simp
  have "\<exists>response. searchProjects_result num_str args includeArchived result = Inr response
      \<and> returned_projects response = ?kept"
  proof (cases "?kept = []")
    case True
    then have "searchProjects_result num_str args includeArchived result =
        Inr (createResponse (no_projects_found
          (if truthy (prop_of args ''name'') then [CHR 0x27] @ shown @ [CHR 0x27] else [])))"
      using projects args assms(4) by (simp add: searchProjects_result_def Let_def)
    then show ?thesis
      using True by (simp add: createResponse_def)
  next
    case False
    then have "searchProjects_result num_str args includeArchived result =
        Inr (createJsonResponse
          (ProjectsPayload (filterArchived includeArchived result)))"
      using projects by (simp add: searchProjects_result_def Let_def)
    then show ?thesis
      using projects by (simp add: createJsonResponse_def)
  qed
  then obtain response where
    response: "searchProjects_result num_str args includeArchived result = Inr response"
    and kept: "returned_projects response = ?kept"
    by blast
  have "handleSearchProjects num_str str_positive (Some client) args =
      (Inr response, [SearchProjects query first])"
    using search_after_request [OF assms(1,2)] response by simp
  moreover have "\<not> truthy (prop_of args ''includeArchived'') \<longrightarrow>
      returned_projects response =
        filter (\<lambda>project. prop_of (JObj project) ''state'' \<notin> set archived_labels)
          (nodes connection)
      \<and> (\<forall>project \<in> set (returned_projects response).
            prop_of (JObj project) ''state'' \<notin> set archived_labels)"
    using kept by simp
  moreover have "truthy (prop_of args ''includeArchived'') \<longrightarrow>
      returned_projects response = nodes connection"
    using kept by simp
  ultimately show ?thesis by blast
qed


theorem archived_projects_are_filtered_unless_included_witness:
  "(\<exists>response.
      handleSearchProjects example_number_text never_gt0 (Some example_client) search_by_name =
        (Inr response,
         [SearchProjects (JObj [(''name'', JObj [(''contains'', JStr ''Roadmap'')])]) (JNum (Finite 50))])
      \<and> returned_projects response =
        [[(''id'', JStr ''p1''), (''name'', JStr ''Roadmap''), (''state'', JStr ''Started'')],
         [(''id'', JStr ''p3''), (''name'', JStr ''Roadmap drafts'')]])
   \<and> (\<exists>response.
      handleSearchProjects example_number_text never_gt0 (Some example_client) search_with_archived =
        (Inr response,
         [SearchProjects (JObj [(''name'', JObj [(''contains'', JStr ''Roadmap'')])]) (JNum (Finite 50))])
      \<and> returned_projects response = found_projects)"
proof -
  let ?query = "JObj [(''name'', JObj [(''contains'', JStr ''Roadmap'')])]"
  let ?result = "\<lparr> result_projects = Some \<lparr> nodes = found_projects \<rparr> \<rparr>"
  have unset: "\<not> truthy (prop_of search_by_name ''includeArchived'')"
    by (simp add: search_by_name_def)
  have given: "truthy (prop_of search_with_archived ''includeArchived'')"
    by (simp add: search_with_archived_def)
  have kept: "filter (\<lambda>project. prop_of (JObj project) ''state'' \<notin> set archived_labels)
      found_projects =
        [[(''id'', JStr ''p1''), (''name'', JStr ''Roadmap''), (''state'', JStr ''Started'')],
         [(''id'', JStr ''p3''), (''name'', JStr ''Roadmap drafts'')]]"
    by (simp add: found_projects_def archived_labels_def)
  have answer: "searchProjects example_client ?query (JNum (Finite 50)) = Inr ?result"
    by (simp add: example_client_def projects_found_def)
  have projects: "result_projects ?result = Some \<lparr> nodes = found_projects \<rparr>"
    by simp
  have name1: "to_string example_number_text (prop_of search_by_name ''name'') = Inr ''Roadmap''"
    by (simp add: search_by_name_def)
  have name2: "to_string example_number_text (prop_of search_with_archived ''name'') = Inr ''Roadmap''"
    by (simp add: search_with_archived_def)
  have "\<exists>response.
      handleSearchProjects example_number_text never_gt0 (Some example_client) search_by_name =
        (Inr response, [SearchProjects ?query (JNum (Finite 50))])
      \<and> returned_projects response =
        [[(''id'', JStr ''p1''), (''name'', JStr ''Roadmap''), (''state'', JStr ''Started'')],
         [(''id'', JStr ''p3''), (''name'', JStr ''Roadmap drafts'')]]"
    using archived_projects_are_filtered_unless_included
      [OF example_request [where num_str = example_number_text and str_positive = never_gt0]
          answer projects name1] unset kept
    by auto
  moreover have "\<exists>response.
      handleSearchProjects example_number_text never_gt0 (Some example_client) search_with_archived =
        (Inr response, [SearchProjects ?query (JNum (Finite 50))])
      \<and> returned_projects response = found_projects"
    using archived_projects_are_filtered_unless_included
      [OF example_request_with_archived
            [where num_str = example_number_text and str_positive = never_gt0]
          answer projects name2] given
    by auto
  ultimately show ?thesis by (rule conjI)
qed

text \<open>
  Claim C9, at an input where the code departs from it. The arguments give a name and,
  as \<^verbatim>\<open>teamIds\<close>, the string \<^verbatim>\<open>team-1\<close>, which is not an array. The check of the two
  alternatives tests \<^verbatim>\<open>Array.isArray\<close>; the test that builds the filter does not, and the
  length of the string is above zero. The filter sent upstream holds a team clause whose
  list of identifiers is the string.
\<close>

theorem teamIds_string_yields_a_team_clause:
  "\<not> isArray (prop_of search_with_teamIds_string ''teamIds'')
   \<and> buildFilter num_str str_positive search_with_teamIds_string =
     Inr (JObj [(''name'', JObj [(''contains'', JStr ''Roadmap'')]),
                (''team'', JObj [(''id'', JObj [(''in'', JStr ''team-1'')])])])
   \<and> snd (handleSearchProjects num_str str_positive (Some example_client) search_with_teamIds_string) =
     [SearchProjects
        (JObj [(''name'', JObj [(''contains'', JStr ''Roadmap'')]),
               (''team'', JObj [(''id'', JObj [(''in'', JStr ''team-1'')])])])
        (JNum (Finite 50))]"
proof -
  have filter: "buildFilter num_str str_positive search_with_teamIds_string =
     Inr (JObj [(''name'', JObj [(''contains'', JStr ''Roadmap'')]),
                (''team'', JObj [(''id'', JObj [(''in'', JStr ''team-1'')])])])"
    by (simp add: buildFilter_def search_with_teamIds_string_def)
  have "requireNameOrTeamIds search_with_teamIds_string = Inr ()"
    by (simp add: requireNameOrTeamIds_def search_with_teamIds_string_def)
  then have "searchProjects_request num_str str_positive search_with_teamIds_string =
     Inr (JObj [(''name'', JObj [(''contains'', JStr ''Roadmap'')]),
                (''team'', JObj [(''id'', JObj [(''in'', JStr ''team-1'')])])],
          JNum (Finite 50), JBool False)"
    using filter by (simp add: searchProjects_request_def search_with_teamIds_string_def)
  moreover have "searchProjects example_client
      (JObj [(''name'', JObj [(''contains'', JStr ''Roadmap'')]),
             (''team'', JObj [(''id'', JObj [(''in'', JStr ''team-1'')])])])
      (JNum (Finite 50)) = Inr \<lparr> result_projects = Some \<lparr> nodes = found_projects \<rparr> \<rparr>"
    by (simp add: example_client_def projects_found_def)
  ultimately have "snd (handleSearchProjects num_str str_positive (Some example_client)
        search_with_teamIds_string) =
     [SearchProjects
        (JObj [(''name'', JObj [(''contains'', JStr ''Roadmap'')]),
               (''team'', JObj [(''id'', JObj [(''in'', JStr ''team-1'')])])])
        (JNum (Finite 50))]"
    by (simp add: search_after_request)
  moreover have "\<not> isArray (prop_of search_with_teamIds_string ''teamIds'')"
    by (simp add: search_with_teamIds_string_def)
  ultimately show ?thesis
    using filter by simp
qed

theorem teamIds_string_yields_a_team_clause_witness:
  "snd (handleSearchProjects example_number_text never_gt0 (Some example_client) search_with_teamIds_string) =
     [SearchProjects
        (JObj [(''name'', JObj [(''contains'', JStr ''Roadmap'')]),
               (''team'', JObj [(''id'', JObj [(''in'', JStr ''team-1'')])])])
        (JNum (Finite 50))]"
  using teamIds_string_yields_a_team_clause
    [where num_str = example_number_text and str_positive = never_gt0] by simp

end
